theory Spec2Isabelle
  imports Main
begin

text \<open>
  A shallow embedding of \<^verbatim>\<open>src/digikey/models.py\<close>: the recursive key-casing transforms of
  \<^verbatim>\<open>BaseModel\<close>, the request schemas with the validation entry points \<^verbatim>\<open>errors\<close>,
  \<^verbatim>\<open>errors_list\<close> and \<^verbatim>\<open>is_valid\<close>, the cross-field rule of \<^verbatim>\<open>Sort\<close>, and the
  response objects \<^verbatim>\<open>KeywordSearchResult\<close> and \<^verbatim>\<open>Part\<close> with their helper wrappers.
  Exceptions are values: a function that can raise returns \<open>exn + 'a\<close>, with \<open>Inl\<close>
  the exception. Text is \<open>string\<close>, one \<open>char\<close> per character; floating-point
  numbers are not part of the model.
\<close>

section \<open>Key casing\<close>

text \<open>
  Modelled from the spec: the key functions \<^verbatim>\<open>camelize\<close> and \<^verbatim>\<open>underscore\<close> that
  \<^verbatim>\<open>recursive_camelize\<close> and \<^verbatim>\<open>recursive_underscore\<close> call belong to the inflection
  package, which src/ imports and does not contain. The spec fixes their purpose
  (snake case to camel case and back, driven by the key name alone, not invertible on
  every key); the definitions follow the package's regular expressions:
  \<^verbatim>\<open>camelize(s) = re.sub(r"(?:^|_)(.)", lambda m: m.group(1).upper(), s)\<close>, and
  \<^verbatim>\<open>underscore(w)\<close> applies \<^verbatim>\<open>re.sub(r"([A-Z]+)([A-Z][a-z])", r'\1_\2', w)\<close>, then
  \<^verbatim>\<open>re.sub(r"([a-z\d])([A-Z])", r'\1_\2', w)\<close>, then \<^verbatim>\<open>w.replace("-", "_")\<close>, then
  \<^verbatim>\<open>w.lower()\<close>. Letters and digits are the ASCII ones: the case mappings leave every
  other character as it is, which is Python's behaviour on ASCII text only.
\<close>

definition is_upper :: "char \<Rightarrow> bool" where
  "is_upper c = (c \<in> set ''ABCDEFGHIJKLMNOPQRSTUVWXYZ'')"

definition is_lower :: "char \<Rightarrow> bool" where
  "is_lower c = (c \<in> set ''abcdefghijklmnopqrstuvwxyz'')"

definition is_digit :: "char \<Rightarrow> bool" where
  "is_digit c = (c \<in> set ''0123456789'')"

definition upper :: "char \<Rightarrow> char" where
  "upper c = (case map_of (zip ''abcdefghijklmnopqrstuvwxyz'' ''ABCDEFGHIJKLMNOPQRSTUVWXYZ'') c of
                Some u \<Rightarrow> u | None \<Rightarrow> c)"

definition lower :: "char \<Rightarrow> char" where
  "lower c = (case map_of (zip ''ABCDEFGHIJKLMNOPQRSTUVWXYZ'' ''abcdefghijklmnopqrstuvwxyz'') c of
                Some l \<Rightarrow> l | None \<Rightarrow> c)"

definition newline :: char where
  "newline = CHR 0x0A"

text \<open>
  \<^verbatim>\<open>re.sub\<close> scans from the left and replaces each match. The pattern
  \<^verbatim>\<open>(?:^|_)(.)\<close> matches the first character of the text (\<open>^\<close> holds at position 0
  only), and after that an underscore together with the character that follows it; the
  dot matches any character but a newline. \<open>camelize_rest\<close> is the scan after
  position 0.
\<close>

fun camelize_rest :: "string \<Rightarrow> string" where
  "camelize_rest (c # d # cs) =
     (if c = CHR ''_'' \<and> d \<noteq> newline then upper d # camelize_rest cs
      else c # camelize_rest (d # cs))"
| "camelize_rest cs = cs"

definition camelize :: "string \<Rightarrow> string" where
  "camelize s = (case s of [] \<Rightarrow> []
                 | c # cs \<Rightarrow> if c \<noteq> newline then upper c # camelize_rest cs
                            else c # camelize_rest cs)"

text \<open>
  First substitution of \<^verbatim>\<open>underscore\<close>: at an uppercase letter, \<^verbatim>\<open>[A-Z]+\<close> takes the
  whole run of uppercase letters and gives back one, so the pattern matches exactly when
  the run has at least two letters and a lowercase letter follows it; the underscore goes
  before the last letter of the run, and the scan resumes after the lowercase letter.
  Where the pattern does not match, the character is copied and the scan moves on by one.
\<close>

function sub_acronym :: "string \<Rightarrow> string" where
  "sub_acronym [] = []"
| "sub_acronym (c # cs) =
     (if is_upper c then
        (let run = takeWhile is_upper cs in
         case dropWhile is_upper cs of
           [] \<Rightarrow> c # sub_acronym cs
         | r # rest \<Rightarrow>
             if run \<noteq> [] \<and> is_lower r
             then (c # butlast run) @ ''_'' @ [last run, r] @ sub_acronym rest
             else c # sub_acronym cs)
      else c # sub_acronym cs)"
  by pat_completeness auto
termination
proof (relation "measure length")
  fix c :: char and cs run r rest
  assume "dropWhile is_upper cs = r # rest"
  then have "length (r # rest) \<le> length cs"
    by (metis length_dropWhile_le)
  then show "(rest, c # cs) \<in> measure length" by simp
qed auto

text \<open>
  Second substitution: an underscore between a lowercase letter or digit and the
  uppercase letter after it; the scan resumes after the uppercase letter.
\<close>

fun sub_boundary :: "string \<Rightarrow> string" where
  "sub_boundary (c # d # cs) =
     (if (is_lower c \<or> is_digit c) \<and> is_upper d then c # CHR ''_'' # d # sub_boundary cs
      else c # sub_boundary (d # cs))"
| "sub_boundary cs = cs"

definition underscore :: "string \<Rightarrow> string" where
  "underscore word =
     map lower (map (\<lambda>c. if c = CHR ''-'' then CHR ''_'' else c)
       (sub_boundary (sub_acronym word)))"

text \<open>
  The keys on which the two functions are inverse to each other. A component is a
  lowercase letter followed by at least one lowercase letter or digit. A snake-case key
  of the class is a sequence of components separated by single underscores
  (\<open>split_us\<close> is Python's \<^verbatim>\<open>k.split('_')\<close>); a camel-case key of the class is a
  sequence of capitalised components (\<open>camel_split\<close> cuts before every uppercase
  letter and lowers the first letter of each piece).
\<close>

definition lowdig :: "char \<Rightarrow> bool" where
  "lowdig c = (is_lower c \<or> is_digit c)"

fun good_comp :: "string \<Rightarrow> bool" where
  "good_comp [] = False"
| "good_comp (x # xs) = (is_lower x \<and> xs \<noteq> [] \<and> list_all lowdig xs)"

fun capitalize :: "string \<Rightarrow> string" where
  "capitalize [] = []"
| "capitalize (x # xs) = upper x # xs"

fun split_us :: "string \<Rightarrow> string list" where
  "split_us [] = [[]]"
| "split_us (c # cs) =
     (if c = CHR ''_'' then [] # split_us cs
      else (case split_us cs of [] \<Rightarrow> [[c]] | w # ws \<Rightarrow> (c # w) # ws))"

definition snake_key :: "string \<Rightarrow> bool" where
  "snake_key k = list_all good_comp (split_us k)"

function camel_split :: "string \<Rightarrow> string list" where
  "camel_split [] = []"
| "camel_split (c # cs) =
     (lower c # takeWhile (\<lambda>d. \<not> is_upper d) cs) # camel_split (dropWhile (\<lambda>d. \<not> is_upper d) cs)"
  by pat_completeness auto
termination
  by (relation "measure length") (auto simp: length_dropWhile_le less_Suc_eq_le)

definition camel_key :: "string \<Rightarrow> bool" where
  "camel_key k = (case k of [] \<Rightarrow> False
                  | c # _ \<Rightarrow> is_upper c \<and> list_all good_comp (camel_split k))"

fun join_us :: "string list \<Rightarrow> string" where
  "join_us [] = []"
| "join_us (c # cs) = c @ concat (map ((#) CHR ''_'') cs)"

section \<open>Python values and the recursive key transforms\<close>

text \<open>
  The values a decoded JSON document is made of. A \<^verbatim>\<open>dict\<close> is an association list in
  insertion order, with text keys as JSON has them; a well-formed one has distinct keys.
  A dict comprehension stores its items from left to right: a key that is already
  present keeps its position and takes the new value (\<open>dict_set\<close>).
\<close>

datatype pyval = PNone | PBool bool | PInt int | PStr string
  | PList "pyval list" | PDict "(string \<times> pyval) list"

fun dict_set :: "(string \<times> 'v) list \<Rightarrow> string \<Rightarrow> 'v \<Rightarrow> (string \<times> 'v) list" where
  "dict_set [] k v = [(k, v)]"
| "dict_set ((k', v') # d) k v =
     (if k' = k then (k', v) # d else (k', v') # dict_set d k v)"

definition dict_of_items :: "(string \<times> 'v) list \<Rightarrow> (string \<times> 'v) list" where
  "dict_of_items kvs = foldl (\<lambda>d (k, v). dict_set d k v) [] kvs"

fun recursive_camelize :: "pyval \<Rightarrow> pyval" where
  "recursive_camelize (PDict kvs) =
     PDict (dict_of_items (map (\<lambda>(k, v). (camelize k, recursive_camelize v)) kvs))"
| "recursive_camelize (PList xs) = PList (map recursive_camelize xs)"
| "recursive_camelize v = v"

fun recursive_underscore :: "pyval \<Rightarrow> pyval" where
  "recursive_underscore (PDict kvs) =
     PDict (dict_of_items (map (\<lambda>(k, v). (underscore k, recursive_underscore v)) kvs))"
| "recursive_underscore (PList xs) = PList (map recursive_underscore xs)"
| "recursive_underscore v = v"

text \<open>
  \<open>keys_ok P v\<close>: at every depth of \<open>v\<close>, the keys of a mapping are distinct and
  satisfy \<open>P\<close>.
\<close>

fun keys_ok :: "(string \<Rightarrow> bool) \<Rightarrow> pyval \<Rightarrow> bool" where
  "keys_ok P (PDict kvs) =
     (distinct (map fst kvs) \<and> list_all (\<lambda>(k, v). P k \<and> keys_ok P v) kvs)"
| "keys_ok P (PList xs) = list_all (keys_ok P) xs"
| "keys_ok P v = True"

section \<open>Schemas and validation\<close>

text \<open>
  Modelled from the spec: the schema runtime (the schematics package: \<^verbatim>\<open>Model\<close>, the
  field types, \<^verbatim>\<open>DataError\<close>, \<^verbatim>\<open>ValidationError\<close>, \<^verbatim>\<open>ConversionError\<close>) is not in
  src/. Following the spec's ValidationCore, constructing a model coerces every field of
  the raw mapping to its declared type and collects the failures, and validating it
  checks every field (required, range, length, allowed values, nested values), collects
  the violations and, when no field is in error, evaluates the cross-field rules. The
  field declarations, the enumerations and the rule of \<^verbatim>\<open>Sort\<close> are those of the source.
  A violation is named by its kind in the spec's taxonomy; the text of a cross-field
  violation is the one the source raises. A key of the raw mapping that names no field is
  rejected at construction (\<open>RogueField\<close>). A scalar of the field's own type converts to
  itself; what the runtime makes of any other scalar (a numeral in a text, say) is the
  parameter \<open>co\<close>, where \<open>None\<close> is a conversion failure.
\<close>

datatype model = ParametricFilters | Filters | Sort | KeywordSearchRequest
  | PartDetailPostRequest | ProductDetailGetRequest | LimitedTaxonomy | Value | FilterOption

datatype ftype = IntType "int option" "int option"
  | StringType "nat option" "nat option" "string list option"
  | BooleanType
  | ListType ftype
  | ModelType model

datatype native = NNone | NBool bool | NInt int | NStr string
  | NList "native list" | NModel model "(string \<times> native) list"

text \<open>
  \<open>IntType lo hi\<close> carries \<^verbatim>\<open>min_value\<close> and \<^verbatim>\<open>max_value\<close>, \<open>StringType mn mx ch\<close>
  carries \<^verbatim>\<open>min_length\<close>, \<^verbatim>\<open>max_length\<close> and \<^verbatim>\<open>choices\<close>, each \<open>None\<close> when the
  declaration does not give it. A converted value is a \<open>native\<close>; a model instance is
  \<open>NModel\<close> with its class and its fields in declaration order. A field declaration is
  its type, \<^verbatim>\<open>required\<close>, and \<^verbatim>\<open>default\<close> if it has one.
\<close>

datatype field = Field (ftype_of: ftype) (required: bool) (default_of: "native option")

datatype violation = ConstraintViolation | MissingRequiredField | ConversionFailure
  | RogueField | CrossFieldViolation string

datatype report = Messages "violation list" | Fields "(string \<times> report) list"
  | Items "(nat \<times> report) list"

datatype exn = DataError report | ConversionError report | ValidationError string
  | KeyError string | TypeError | AttributeError

definition SortOptions :: "string list" where
  "SortOptions = [''SortByDigiKeyPartNumber'', ''SortByManufacturerPartNumber'',
     ''SortByDescription'', ''SortByManufacturer'', ''SortByMinimumOrderQuantity'',
     ''SortByQuantityAvailable'', ''SortByUnitPrice'', ''SortByParameter'']"

definition sort_by_parameter :: string where
  "sort_by_parameter = ''SortByParameter''"

definition SortDirections :: "string list" where
  "SortDirections = [''Ascending'', ''Descending'']"

definition SearchOptions :: "string list" where
  "SearchOptions = [''LeadFree'', ''CollapsePackagingTypes'', ''ExcludeNonStock'',
     ''Has3DModel'', ''InStock'', ''ManufacturerPartSearch'', ''NewProductsOnly'',
     ''RoHSCompliant'', ''HasMentorFootprint'']"

fun fields :: "model \<Rightarrow> (string \<times> field) list" where
  "fields ParametricFilters =
     [(''parameter_id'', Field (IntType None None) True None),
      (''value_id'', Field (StringType (Some 1) (Some 100) None) True None)]"
| "fields Filters =
     [(''taxonomy_ids'', Field (ListType (IntType None None)) False None),
      (''manufacturer_ids'', Field (ListType (IntType None None)) False None),
      (''parametric_filters'', Field (ListType (ModelType ParametricFilters)) False None)]"
| "fields Sort =
     [(''sort_option'', Field (StringType None None (Some SortOptions)) True None),
      (''direction'', Field (StringType None None (Some SortDirections)) True None),
      (''sort_parameter_id'', Field (IntType None None) False None)]"
| "fields KeywordSearchRequest =
     [(''keywords'', Field (StringType None None None) True None),
      (''search_options'', Field (ListType (StringType None None (Some SearchOptions))) False None),
      (''record_count'', Field (IntType (Some 1) (Some 50)) True (Some (NInt 10))),
      (''record_start_pos'', Field (IntType None None) False (Some (NInt 0))),
      (''filters'', Field (ModelType Filters) False None),
      (''sort'', Field (ModelType Sort) False None),
      (''requested_quantity'', Field (IntType None None) False (Some (NInt 1)))]"
| "fields PartDetailPostRequest =
     [(''part'', Field (StringType None None None) True None),
      (''include_all_associated_products'', Field BooleanType False None),
      (''include_all_for_use_with_products'', Field BooleanType False None)]"
| "fields ProductDetailGetRequest =
     [(''part'', Field (StringType None None None) True None),
      (''includes'', Field (StringType None None None) False None)]"
| "fields LimitedTaxonomy =
     [(''product_count'', Field (IntType None None) False None),
      (''new_product_count'', Field (IntType None None) False None),
      (''parameter_id'', Field (IntType None None) False None),
      (''value_id'', Field (StringType None None None) False None),
      (''parameter'', Field (StringType None None None) False None),
      (''value'', Field (StringType None None None) False None),
      (''children'', Field (ListType (ModelType LimitedTaxonomy)) False None)]"
| "fields Value =
     [(''value_id'', Field (StringType None None None) False None),
      (''value'', Field (StringType None None None) False None)]"
| "fields FilterOption =
     [(''values'', Field (ListType (ModelType Value)) False None),
      (''parameter_id'', Field (IntType None None) False None),
      (''parameter'', Field (StringType None None None) False None)]"

fun lefts :: "('k \<times> ('e + 'v)) list \<Rightarrow> ('k \<times> 'e) list" where
  "lefts [] = []"
| "lefts ((k, Inl e) # rs) = (k, e) # lefts rs"
| "lefts ((k, Inr v) # rs) = lefts rs"

fun rights :: "('k \<times> ('e + 'v)) list \<Rightarrow> ('k \<times> 'v) list" where
  "rights [] = []"
| "rights ((k, Inl e) # rs) = rights rs"
| "rights ((k, Inr v) # rs) = (k, v) # rights rs"

definition rogue_fields :: "model \<Rightarrow> (string \<times> pyval) list \<Rightarrow> (string \<times> report) list" where
  "rogue_fields m kvs =
     map (\<lambda>k. (k, Messages [RogueField]))
       (filter (\<lambda>k. k \<notin> set (map fst (fields m))) (map fst kvs))"

text \<open>
  \<open>convert\<close> is the coercion of one raw value to a field type. A raw \<^verbatim>\<open>None\<close> stays
  \<^verbatim>\<open>None\<close>; a list is converted item by item and a mapping field by field, with the
  failures collected under the item's index or the field's name; a field whose key is
  absent takes its default, or \<^verbatim>\<open>None\<close>.
\<close>

function (sequential) convert :: "(ftype \<Rightarrow> pyval \<Rightarrow> native option) \<Rightarrow> ftype \<Rightarrow> pyval \<Rightarrow> report + native" where
  "convert co t PNone = Inr NNone"
| "convert co (ListType t) (PList xs) =
     (let rs = zip [0 ..< length xs] (map (convert co t) xs)
      in if lefts rs = [] then Inr (NList (map snd (rights rs))) else Inl (Items (lefts rs)))"
| "convert co (ListType t) v = Inl (Messages [ConversionFailure])"
| "convert co (ModelType m) (PDict kvs) =
     (let rs = map (\<lambda>nf. (fst nf,
                  case map_of kvs (fst nf) of
                    None \<Rightarrow> Inr (case default_of (snd nf) of None \<Rightarrow> NNone | Some d \<Rightarrow> d)
                  | Some v \<Rightarrow> convert co (ftype_of (snd nf)) v)) (fields m);
          errs = rogue_fields m kvs @ lefts rs
      in if errs = [] then Inr (NModel m (rights rs)) else Inl (Fields errs))"
| "convert co (ModelType m) v = Inl (Messages [ConversionFailure])"
| "convert co (IntType lo hi) (PInt i) = Inr (NInt i)"
| "convert co (StringType mn mx ch) (PStr s) = Inr (NStr s)"
| "convert co BooleanType (PBool b) = Inr (NBool b)"
| "convert co t (PList xs) = Inl (Messages [ConversionFailure])"
| "convert co t (PDict kvs) = Inl (Messages [ConversionFailure])"
| "convert co t v = (case co t v of None \<Rightarrow> Inl (Messages [ConversionFailure]) | Some n \<Rightarrow> Inr n)"
  by pat_completeness auto
termination
proof -
  have m: "size v < size_list (size_prod (\<lambda>_. 0) size) kvs"
    if "map_of kvs k = Some v" for kvs :: "(string \<times> pyval) list" and k v
    using that by (induction kvs) (auto split: if_splits)
  show ?thesis
    by (relation "measure (\<lambda>(co, t, v). size v)")
       (auto simp: size_list_estimation' less_Suc_eq_le dest: m)
qed

text \<open>
  \<^verbatim>\<open>cls(raw)\<close>: a failed conversion raises \<^verbatim>\<open>DataError\<close> with the collected report; a
  raw value that is neither a mapping nor \<^verbatim>\<open>None\<close> is a fault of the caller.
\<close>

definition Model_init :: "(ftype \<Rightarrow> pyval \<Rightarrow> native option) \<Rightarrow> model \<Rightarrow> pyval \<Rightarrow> exn + native" where
  "Model_init co m raw =
     (case raw of
        PNone \<Rightarrow> (case convert co (ModelType m) (PDict []) of
                    Inl r \<Rightarrow> Inl (DataError r) | Inr inst \<Rightarrow> Inr inst)
      | PDict kvs \<Rightarrow> (case convert co (ModelType m) (PDict kvs) of
                    Inl r \<Rightarrow> Inl (DataError r) | Inr inst \<Rightarrow> Inr inst)
      | _ \<Rightarrow> Inl TypeError)"

text \<open>
  \<^verbatim>\<open>Sort.validate_sort_parameter_id(self, data, value)\<close>, the cross-field rule of the
  source: \<open>data\<close> holds the converted fields, and indexing it with a key it does not
  have raises \<^verbatim>\<open>KeyError\<close>.
\<close>

definition validate_sort_parameter_id :: "(string \<times> native) list \<Rightarrow> native \<Rightarrow> exn + native" where
  "validate_sort_parameter_id data val =
     (case map_of data ''sort_option'' of
        None \<Rightarrow> Inl (KeyError ''sort_option'')
      | Some so \<Rightarrow>
          if so = NStr sort_by_parameter then
            (case map_of data ''sort_parameter_id'' of
               None \<Rightarrow> Inl (KeyError ''sort_parameter_id'')
             | Some p \<Rightarrow>
                 if p = NNone
                 then Inl (ValidationError ''If sorting by parameter a sort parameter must be set'')
                 else Inr val)
          else
            (case map_of data ''sort_parameter_id'' of
               None \<Rightarrow> Inl (KeyError ''sort_parameter_id'')
             | Some p \<Rightarrow>
                 if p \<noteq> NNone
                 then Inl (ValidationError
                        ''If not sorting by parameter no sort parameter id should be provided'')
                 else Inr val))"

fun validators :: "model \<Rightarrow> (string \<times> ((string \<times> native) list \<Rightarrow> native \<Rightarrow> exn + native)) list" where
  "validators Sort = [(''sort_parameter_id'', validate_sort_parameter_id)]"
| "validators m = []"

fun sequence :: "('e + 'a) list \<Rightarrow> 'e + 'a list" where
  "sequence [] = Inr []"
| "sequence (Inl e # rs) = Inl e"
| "sequence (Inr v # rs) = (case sequence rs of Inl e \<Rightarrow> Inl e | Inr vs \<Rightarrow> Inr (v # vs))"

fun somes :: "('k \<times> 'r option) list \<Rightarrow> ('k \<times> 'r) list" where
  "somes [] = []"
| "somes ((k, None) # rs) = somes rs"
| "somes ((k, Some r) # rs) = (k, r) # somes rs"

definition check_range :: "int option \<Rightarrow> int option \<Rightarrow> int \<Rightarrow> violation list" where
  "check_range lo hi i =
     (case lo of None \<Rightarrow> [] | Some l \<Rightarrow> if i < l then [ConstraintViolation] else []) @
     (case hi of None \<Rightarrow> [] | Some h \<Rightarrow> if h < i then [ConstraintViolation] else [])"

definition check_text :: "nat option \<Rightarrow> nat option \<Rightarrow> string list option \<Rightarrow> string \<Rightarrow> violation list" where
  "check_text mn mx ch s =
     (case ch of None \<Rightarrow> [] | Some cs \<Rightarrow> if s \<notin> set cs then [ConstraintViolation] else []) @
     (case mn of None \<Rightarrow> [] | Some n \<Rightarrow> if length s < n then [ConstraintViolation] else []) @
     (case mx of None \<Rightarrow> [] | Some n \<Rightarrow> if n < length s then [ConstraintViolation] else [])"

definition messages :: "violation list \<Rightarrow> report option" where
  "messages vs = (if vs = [] then None else Some (Messages vs))"

fun run_rule :: "(string \<times> native) list \<Rightarrow>
    string \<times> ((string \<times> native) list \<Rightarrow> native \<Rightarrow> exn + native) \<Rightarrow> exn + (string \<times> report option)" where
  "run_rule data (name, rule) =
     (case map_of data name of
        None \<Rightarrow> Inr (name, None)
      | Some v \<Rightarrow>
          (case rule data v of
             Inl (ValidationError msg) \<Rightarrow> Inr (name, Some (Messages [CrossFieldViolation msg]))
           | Inl e \<Rightarrow> Inl e
           | Inr _ \<Rightarrow> Inr (name, None)))"

text \<open>
  \<open>validate_value\<close> checks one converted value against a field type. For a model it
  checks every field, and evaluates the rules of the model when no field is in error. A
  rule that raises \<^verbatim>\<open>ValidationError\<close> gives a violation under its field's name; any
  other exception of a rule goes to the caller.
\<close>

function (sequential) validate_value :: "ftype \<Rightarrow> native \<Rightarrow> exn + report option" where
  "validate_value t NNone = Inr None"
| "validate_value (IntType lo hi) (NInt i) = Inr (messages (check_range lo hi i))"
| "validate_value (StringType mn mx ch) (NStr s) = Inr (messages (check_text mn mx ch s))"
| "validate_value (ListType t) (NList xs) =
     (case sequence (map (validate_value t) xs) of
        Inl e \<Rightarrow> Inl e
      | Inr rs \<Rightarrow>
          (let errs = somes (zip [0 ..< length rs] rs)
           in Inr (if errs = [] then None else Some (Items errs))))"
| "validate_value (ModelType m) (NModel m' data) =
     (case sequence (map (\<lambda>nf.
             case map_of data (fst nf) of
               None \<Rightarrow> Inr (if required (snd nf) then Some (Messages [MissingRequiredField]) else None)
             | Some v \<Rightarrow>
                 if v = NNone
                 then Inr (if required (snd nf) then Some (Messages [MissingRequiredField]) else None)
                 else validate_value (ftype_of (snd nf)) v) (fields m)) of
        Inl e \<Rightarrow> Inl e
      | Inr rs \<Rightarrow>
          (let errs = somes (zip (map fst (fields m)) rs)
           in if errs \<noteq> [] then Inr (Some (Fields errs))
              else (case sequence (map (run_rule data) (validators m)) of
                      Inl e \<Rightarrow> Inl e
                    | Inr rr \<Rightarrow> Inr (if somes rr = [] then None else Some (Fields (somes rr))))))"
| "validate_value t v = Inr None"
  by pat_completeness auto
termination
proof -
  have m: "size v < size_list (size_prod (\<lambda>_. 0) size) kvs"
    if "map_of kvs k = Some v" for kvs :: "(string \<times> native) list" and k v
    using that by (induction kvs) (auto split: if_splits)
  show ?thesis
    by (relation "measure (\<lambda>(t, v). size v)")
       (auto simp: size_list_estimation' less_Suc_eq_le dest: m)
qed

text \<open>\<^verbatim>\<open>instance.validate()\<close>: raises \<^verbatim>\<open>DataError\<close> with the report when there is one.\<close>

definition validate :: "native \<Rightarrow> exn + unit" where
  "validate inst =
     (case inst of
        NModel m data \<Rightarrow>
          (case validate_value (ModelType m) inst of
             Inl e \<Rightarrow> Inl e
           | Inr None \<Rightarrow> Inr ()
           | Inr (Some r) \<Rightarrow> Inl (DataError r))
      | _ \<Rightarrow> Inl AttributeError)"

text \<open>
  \<^verbatim>\<open>BaseModel.errors(cls, dict_)\<close>: construction and validation inside one \<^verbatim>\<open>try\<close>
  whose handler returns the messages of a \<^verbatim>\<open>DataError\<close> or \<^verbatim>\<open>ValidationError\<close>.
\<close>

definition errors :: "(ftype \<Rightarrow> pyval \<Rightarrow> native option) \<Rightarrow> model \<Rightarrow> pyval \<Rightarrow> exn + report option" where
  "errors co cls dict' =
     (case (case Model_init co cls dict' of Inl e \<Rightarrow> Inl e | Inr inst \<Rightarrow> validate inst) of
        Inr _ \<Rightarrow> Inr None
      | Inl (DataError r) \<Rightarrow> Inr (Some r)
      | Inl (ValidationError msg) \<Rightarrow> Inr (Some (Messages [CrossFieldViolation msg]))
      | Inl e \<Rightarrow> Inl e)"

text \<open>
  The objects the list entry points handle: \<^verbatim>\<open>None\<close>, a report, a list, and a bound
  method. \<^verbatim>\<open>errors\<close> and \<^verbatim>\<open>is_valid\<close> are class methods, so reading them on an instance
  gives the method bound to the instance's class. \<open>truthy\<close> is Python's truth value:
  \<^verbatim>\<open>None\<close> and empty containers are false, a method object is true.
\<close>

datatype pyobj = NoneObj | ReportObj report | BoundMethod string model | ListObj "pyobj list"

fun truthy :: "pyobj \<Rightarrow> bool" where
  "truthy NoneObj = False"
| "truthy (ReportObj (Messages vs)) = (vs \<noteq> [])"
| "truthy (ReportObj (Fields fs)) = (fs \<noteq> [])"
| "truthy (ReportObj (Items its)) = (its \<noteq> [])"
| "truthy (BoundMethod name cls) = True"
| "truthy (ListObj xs) = (xs \<noteq> [])"

text \<open>
  \<^verbatim>\<open>BaseModel.errors_list(cls, list_)\<close> builds the list
  \<^verbatim>\<open>[cls(dict_).errors for dict_ in list_]\<close>: each instance is constructed, and the
  attribute \<^verbatim>\<open>errors\<close> is read and not called, so each element is the bound method.
  Then \<^verbatim>\<open>any(errors)\<close> decides between the filtered list
  \<^verbatim>\<open>[_f for _f in errors if _f]\<close> and \<^verbatim>\<open>None\<close>. The handler returns the messages of a
  \<^verbatim>\<open>ConversionError\<close> or \<^verbatim>\<open>DataError\<close> raised by a construction.
\<close>

definition errors_list :: "(ftype \<Rightarrow> pyval \<Rightarrow> native option) \<Rightarrow> model \<Rightarrow> pyval list \<Rightarrow> exn + pyobj" where
  "errors_list co cls list' =
     (case sequence (map (\<lambda>dict'. case Model_init co cls dict' of
                                    Inl e \<Rightarrow> Inl e
                                  | Inr inst \<Rightarrow> Inr (BoundMethod ''errors'' cls)) list') of
        Inr errs \<Rightarrow>
          if list_ex truthy errs then Inr (ListObj (filter truthy errs))
          else Inr NoneObj
      | Inl (ConversionError r) \<Rightarrow> Inr (ReportObj r)
      | Inl (DataError r) \<Rightarrow> Inr (ReportObj r)
      | Inl e \<Rightarrow> Inl e)"

text \<open>\<^verbatim>\<open>is_valid\<close> is \<^verbatim>\<open>not cls.errors(dict_)\<close>.\<close>

definition is_valid :: "(ftype \<Rightarrow> pyval \<Rightarrow> native option) \<Rightarrow> model \<Rightarrow> pyval \<Rightarrow> exn + bool" where
  "is_valid co cls dict' =
     (case errors co cls dict' of
        Inl e \<Rightarrow> Inl e
      | Inr None \<Rightarrow> Inr (\<not> truthy NoneObj)
      | Inr (Some r) \<Rightarrow> Inr (\<not> truthy (ReportObj r)))"

text \<open>
  \<^verbatim>\<open>is_valid_list\<close> is \<^verbatim>\<open>all([cls(dict_).is_valid for dict_ in list_])\<close>, with
  \<^verbatim>\<open>is_valid\<close> read and not called, and \<^verbatim>\<open>False\<close> from the handler.
\<close>

definition is_valid_list :: "(ftype \<Rightarrow> pyval \<Rightarrow> native option) \<Rightarrow> model \<Rightarrow> pyval list \<Rightarrow> exn + bool" where
  "is_valid_list co cls list' =
     (case sequence (map (\<lambda>dict'. case Model_init co cls dict' of
                                    Inl e \<Rightarrow> Inl e
                                  | Inr inst \<Rightarrow> Inr (BoundMethod ''is_valid'' cls)) list') of
        Inr ms \<Rightarrow> Inr (list_all truthy ms)
      | Inl (ConversionError r) \<Rightarrow> Inr False
      | Inl (DataError r) \<Rightarrow> Inr False
      | Inl e \<Rightarrow> Inl e)"

section \<open>Response objects\<close>

text \<open>
  Python's \<^verbatim>\<open>value[key]\<close>, \<^verbatim>\<open>value.get(key, default)\<close> and iteration, on the values of
  the model: indexing a mapping with a key it does not have raises \<^verbatim>\<open>KeyError\<close>,
  \<^verbatim>\<open>get\<close> exists on mappings only, and iterating a mapping yields its keys, a text its
  characters.
\<close>

fun py_getitem :: "pyval \<Rightarrow> string \<Rightarrow> exn + pyval" where
  "py_getitem (PDict kvs) k = (case map_of kvs k of None \<Rightarrow> Inl (KeyError k) | Some v \<Rightarrow> Inr v)"
| "py_getitem v k = Inl TypeError"

fun py_get :: "pyval \<Rightarrow> string \<Rightarrow> pyval \<Rightarrow> exn + pyval" where
  "py_get (PDict kvs) k d = Inr (case map_of kvs k of None \<Rightarrow> d | Some v \<Rightarrow> v)"
| "py_get v k d = Inl AttributeError"

fun py_iter :: "pyval \<Rightarrow> exn + pyval list" where
  "py_iter (PList xs) = Inr xs"
| "py_iter (PDict kvs) = Inr (map (\<lambda>kv. PStr (fst kv)) kvs)"
| "py_iter (PStr s) = Inr (map (\<lambda>c. PStr [c]) s)"
| "py_iter v = Inl TypeError"

text \<open>
  \<^verbatim>\<open>KeywordSearchResult.__init__(self, result)\<close> keeps the raw result, builds the
  taxonomy from \<^verbatim>\<open>result['LimitedTaxonomy']\<close> and then one filter option from each item
  of \<^verbatim>\<open>result['FilterOptions']\<close>, each after \<^verbatim>\<open>BaseModel.underscore\<close>.
\<close>

datatype keyword_search_result =
  KeywordSearchResult (raw_result: pyval) (limited_taxonomy: native) (filter_options: "native list")

definition KeywordSearchResult_init ::
    "(ftype \<Rightarrow> pyval \<Rightarrow> native option) \<Rightarrow> pyval \<Rightarrow> exn + keyword_search_result" where
  "KeywordSearchResult_init co result =
     (case py_getitem result ''LimitedTaxonomy'' of
        Inl e \<Rightarrow> Inl e
      | Inr lt \<Rightarrow>
     (case Model_init co LimitedTaxonomy (recursive_underscore lt) of
        Inl e \<Rightarrow> Inl e
      | Inr taxonomy \<Rightarrow>
     (case py_getitem result ''FilterOptions'' of
        Inl e \<Rightarrow> Inl e
      | Inr fos \<Rightarrow>
     (case py_iter fos of
        Inl e \<Rightarrow> Inl e
      | Inr items \<Rightarrow>
     (case sequence (map (\<lambda>filter_option.
               Model_init co FilterOption (recursive_underscore filter_option)) items) of
        Inl e \<Rightarrow> Inl e
      | Inr options \<Rightarrow> Inr (KeywordSearchResult result taxonomy options))))))"

datatype part = Part pyval
datatype price_break = PriceBreak pyval
datatype id_text_pair = IdTextPair pyval
datatype pid_vid = PidVid pyval
datatype family = Family pyval

definition KeywordSearchResult_products :: "keyword_search_result \<Rightarrow> exn + part list" where
  "KeywordSearchResult_products r =
     (case py_get (raw_result r) ''Products'' (PList []) of
        Inl e \<Rightarrow> Inl e
      | Inr ps \<Rightarrow> (case py_iter ps of Inl e \<Rightarrow> Inl e | Inr items \<Rightarrow> Inr (map Part items)))"

text \<open>
  \<^verbatim>\<open>__repr__\<close> formats \<^verbatim>\<open>self._result['ProductsCount']\<close> with \<^verbatim>\<open>%s\<close>; the text of a
  value is the parameter \<open>str\<close>.
\<close>

definition KeywordSearchResult_repr ::
    "(pyval \<Rightarrow> string) \<Rightarrow> keyword_search_result \<Rightarrow> exn + string" where
  "KeywordSearchResult_repr str r =
     (case py_getitem (raw_result r) ''ProductsCount'' of
        Inl e \<Rightarrow> Inl e
      | Inr n \<Rightarrow> Inr (''<KeywordSearchResult: hits='' @ str n @ ''>''))"

text \<open>
  The wrappers hold a raw value; every accessor is one \<^verbatim>\<open>get\<close> with its default. The
  accessors \<^verbatim>\<open>unitprice\<close> and \<^verbatim>\<open>totalprice\<close> of \<^verbatim>\<open>PriceBreak\<close>, whose default is the
  floating-point number 0.0, are left out.
\<close>

fun PriceBreak_breakquantity :: "price_break \<Rightarrow> exn + pyval" where
  "PriceBreak_breakquantity (PriceBreak p) = py_get p ''BreakQuantity'' (PInt 0)"

fun IdTextPair_id :: "id_text_pair \<Rightarrow> exn + pyval" where
  "IdTextPair_id (IdTextPair p) = py_get p ''Id'' (PStr [])"

fun IdTextPair_text :: "id_text_pair \<Rightarrow> exn + pyval" where
  "IdTextPair_text (IdTextPair p) = py_get p ''Text'' (PStr [])"

fun PidVid_parameter_id :: "pid_vid \<Rightarrow> exn + pyval" where
  "PidVid_parameter_id (PidVid p) = py_get p ''ParameterId'' (PInt 0)"

fun PidVid_value_id :: "pid_vid \<Rightarrow> exn + pyval" where
  "PidVid_value_id (PidVid p) = py_get p ''ValueId'' (PInt 0)"

fun PidVid_parameter :: "pid_vid \<Rightarrow> exn + pyval" where
  "PidVid_parameter (PidVid p) = py_get p ''Parameter'' (PStr [])"

fun PidVid_value :: "pid_vid \<Rightarrow> exn + pyval" where
  "PidVid_value (PidVid p) = py_get p ''Value'' (PStr [])"

fun Family_id :: "family \<Rightarrow> exn + pyval" where
  "Family_id (Family p) = py_get p ''Id'' (PStr [])"

fun Family_name :: "family \<Rightarrow> exn + pyval" where
  "Family_name (Family p) = py_get p ''Name'' (PStr [])"

fun Family_part_count :: "family \<Rightarrow> exn + pyval" where
  "Family_part_count (Family p) = py_get p ''PartCount'' (PInt 0)"

fun Part_standard_pricing :: "part \<Rightarrow> exn + price_break list" where
  "Part_standard_pricing (Part p) =
     (case py_get p ''StandardPricing'' (PList []) of
        Inl e \<Rightarrow> Inl e
      | Inr ps \<Rightarrow> (case py_iter ps of Inl e \<Rightarrow> Inl e | Inr items \<Rightarrow> Inr (map PriceBreak items)))"

fun Part_category :: "part \<Rightarrow> exn + id_text_pair" where
  "Part_category (Part p) =
     (case py_get p ''Category'' (PDict []) of Inl e \<Rightarrow> Inl e | Inr c \<Rightarrow> Inr (IdTextPair c))"

fun Part_family :: "part \<Rightarrow> exn + id_text_pair" where
  "Part_family (Part p) =
     (case py_get p ''Family'' (PDict []) of Inl e \<Rightarrow> Inl e | Inr c \<Rightarrow> Inr (IdTextPair c))"

fun Part_manufacturer :: "part \<Rightarrow> exn + pyval" where
  "Part_manufacturer (Part p) =
     (case py_get p ''Manufacturer'' (PDict []) of
        Inl e \<Rightarrow> Inl e | Inr m \<Rightarrow> PidVid_value (PidVid m))"

fun Part_mpn :: "part \<Rightarrow> exn + pyval" where
  "Part_mpn (Part p) = py_get p ''ManufacturerPartNumber'' PNone"

fun Part_part_status :: "part \<Rightarrow> exn + pyval" where
  "Part_part_status (Part p) = py_get p ''PartStatus'' PNone"

fun Part_digikey_pn :: "part \<Rightarrow> exn + pyval" where
  "Part_digikey_pn (Part p) = py_get p ''DigiKeyPartNumber'' PNone"

fun Part_digikey_url :: "part \<Rightarrow> exn + pyval" where
  "Part_digikey_url (Part p) =
     (case py_get p ''PartUrl'' (PStr []) of
        Inl e \<Rightarrow> Inl e
      | Inr (PStr path) \<Rightarrow> Inr (PStr (''https://www.digikey.com'' @ path))
      | Inr v \<Rightarrow> Inl TypeError)"

fun Part_in_stock :: "part \<Rightarrow> exn + pyval" where
  "Part_in_stock (Part p) = py_get p ''QuantityAvailable'' PNone"

fun Part_moq :: "part \<Rightarrow> exn + pyval" where
  "Part_moq (Part p) = py_get p ''MinimumOrderQuantity'' PNone"

text \<open>
  \<^verbatim>\<open>Part.parameters\<close> builds \<^verbatim>\<open>{p.parameter: p.value for p in _params}\<close>. Its keys are
  raw values: a list or a mapping cannot be a key (\<^verbatim>\<open>TypeError\<close>), and the keys
  \<^verbatim>\<open>True\<close> and 1, \<^verbatim>\<open>False\<close> and 0 are equal.
\<close>

fun hashable :: "pyval \<Rightarrow> bool" where
  "hashable (PList xs) = False"
| "hashable (PDict kvs) = False"
| "hashable v = True"

fun key_eq :: "pyval \<Rightarrow> pyval \<Rightarrow> bool" where
  "key_eq (PBool b) (PInt i) = (i = (if b then 1 else 0))"
| "key_eq (PInt i) (PBool b) = (i = (if b then 1 else 0))"
| "key_eq a b = (a = b)"

fun param_set :: "(pyval \<times> pyval) list \<Rightarrow> pyval \<Rightarrow> pyval \<Rightarrow> (pyval \<times> pyval) list" where
  "param_set [] k v = [(k, v)]"
| "param_set ((k', v') # d) k v =
     (if key_eq k' k then (k', v) # d else (k', v') # param_set d k v)"

fun params_dict :: "(pyval \<times> pyval) list \<Rightarrow> pid_vid list \<Rightarrow> exn + (pyval \<times> pyval) list" where
  "params_dict d [] = Inr d"
| "params_dict d (p # ps) =
     (case PidVid_parameter p of
        Inl e \<Rightarrow> Inl e
      | Inr k \<Rightarrow>
          (case PidVid_value p of
             Inl e \<Rightarrow> Inl e
           | Inr v \<Rightarrow> if hashable k then params_dict (param_set d k v) ps else Inl TypeError))"

fun Part_parameters :: "part \<Rightarrow> exn + (pyval \<times> pyval) list" where
  "Part_parameters (Part p) =
     (case py_get p ''Parameters'' (PList []) of
        Inl e \<Rightarrow> Inl e
      | Inr ps \<Rightarrow> (case py_iter ps of
                     Inl e \<Rightarrow> Inl e
                   | Inr items \<Rightarrow> params_dict [] (map PidVid items)))"

fun Part_description_product :: "part \<Rightarrow> exn + pyval" where
  "Part_description_product (Part p) = py_get p ''ProductDescription'' PNone"

fun Part_description_detailed :: "part \<Rightarrow> exn + pyval" where
  "Part_description_detailed (Part p) = py_get p ''DetailedDescription'' PNone"

fun Part_datasheet :: "part \<Rightarrow> exn + pyval" where
  "Part_datasheet (Part p) = py_get p ''PrimaryDatasheet'' PNone"

section \<open>The wire shape of a taxonomy node\<close>

text \<open>
  A taxonomy node as the inbound response carries it: the keys \<^verbatim>\<open>ProductCount\<close>,
  \<^verbatim>\<open>NewProductCount\<close>, \<^verbatim>\<open>ParameterId\<close>, \<^verbatim>\<open>ValueId\<close>, \<^verbatim>\<open>Parameter\<close>, \<^verbatim>\<open>Value\<close>
  and \<^verbatim>\<open>Children\<close>, with integers and texts (or null) as values. \<open>raw_taxon\<close> is the
  raw mapping of a node and \<open>taxonomy_of\<close> the \<^verbatim>\<open>LimitedTaxonomy\<close> instance with the same
  values under the snake-case field names; \<open>depth\<close> counts the levels of an instance
  along its \<^verbatim>\<open>children\<close>.
\<close>

datatype attrs = Attrs "int option" "int option" "int option"
  "string option" "string option" "string option"

datatype taxon = Taxon attrs "taxon list"

fun raw_int :: "int option \<Rightarrow> pyval" where
  "raw_int None = PNone"
| "raw_int (Some i) = PInt i"

fun raw_str :: "string option \<Rightarrow> pyval" where
  "raw_str None = PNone"
| "raw_str (Some s) = PStr s"

fun native_int :: "int option \<Rightarrow> native" where
  "native_int None = NNone"
| "native_int (Some i) = NInt i"

fun native_str :: "string option \<Rightarrow> native" where
  "native_str None = NNone"
| "native_str (Some s) = NStr s"

fun raw_taxon :: "taxon \<Rightarrow> pyval" where
  "raw_taxon (Taxon (Attrs pc npc pid vid p v) cs) =
     PDict [(''ProductCount'', raw_int pc), (''NewProductCount'', raw_int npc),
            (''ParameterId'', raw_int pid), (''ValueId'', raw_str vid),
            (''Parameter'', raw_str p), (''Value'', raw_str v),
            (''Children'', PList (map raw_taxon cs))]"

fun taxonomy_of :: "taxon \<Rightarrow> native" where
  "taxonomy_of (Taxon (Attrs pc npc pid vid p v) cs) =
     NModel LimitedTaxonomy
       [(''product_count'', native_int pc), (''new_product_count'', native_int npc),
        (''parameter_id'', native_int pid), (''value_id'', native_str vid),
        (''parameter'', native_str p), (''value'', native_str v),
        (''children'', NList (map taxonomy_of cs))]"

fun children_of :: "native \<Rightarrow> native list" where
  "children_of (NModel m data) =
     (case map_of data ''children'' of Some (NList cs) \<Rightarrow> cs | _ \<Rightarrow> [])"
| "children_of v = []"

function depth :: "native \<Rightarrow> nat" where
  "depth t = Suc (fold max (map depth (children_of t)) 0)"
  by pat_completeness auto
termination
proof -
  have m: "size v < size_list (size_prod (\<lambda>_. 0) size) kvs"
    if "map_of kvs k = Some v" for kvs :: "(string \<times> native) list" and k v
    using that by (induction kvs) (auto split: if_splits)
  have c: "size x < size t" if "x \<in> set (children_of t)" for x t
  proof (cases t)
    case (NModel mm data)
    show ?thesis
    proof (cases "map_of data ''children''")
      case None
      with that NModel show ?thesis by simp
    next
      case (Some w)
      from that NModel Some have "x \<in> set (case w of NList cs \<Rightarrow> cs | _ \<Rightarrow> [])" by simp
      then obtain cs where w: "w = NList cs" and 2: "x \<in> set cs" by (cases w) simp_all
      from 2 have "size x < size (NList cs)"
        by (simp add: size_list_estimation' less_Suc_eq_le)
      also from m [OF Some] have "size (NList cs) < size t" using NModel w by simp
      finally show ?thesis .
    qed
  qed (use that in simp_all)
  show ?thesis
    by (relation "measure size") (auto dest: c)
qed

declare depth.simps [simp del]

lemma lowdig_cases:
  "lowdig c \<Longrightarrow> c \<in> set ''abcdefghijklmnopqrstuvwxyz0123456789''"
  unfolding lowdig_def is_lower_def is_digit_def by auto

lemma lowdig_not_upper: "lowdig c \<Longrightarrow> \<not> is_upper c"
  by (drule lowdig_cases, simp only: list.set insert_iff empty_iff)
     (elim disjE; simp add: is_upper_def)

lemma lowdig_lower: "lowdig c \<Longrightarrow> lower c = c"
  by (drule lowdig_cases, simp only: list.set insert_iff empty_iff)
     (elim disjE; simp add: lower_def)

lemma lowdig_not_special:
  "lowdig c \<Longrightarrow> c \<noteq> CHR ''_'' \<and> c \<noteq> CHR ''-'' \<and> c \<noteq> newline"
  by (drule lowdig_cases, simp only: list.set insert_iff empty_iff)
     (elim disjE; simp add: newline_def)

lemma upper_of_lower:
  "is_lower c \<Longrightarrow> is_upper (upper c) \<and> lower (upper c) = c \<and> upper c \<noteq> CHR ''-''"
  unfolding is_lower_def
  by (simp only: list.set insert_iff empty_iff)
     (elim disjE; simp add: is_upper_def lower_def upper_def)

lemma upper_not_lowdig:
  "is_upper c \<Longrightarrow> \<not> lowdig c \<and> c \<noteq> CHR ''-'' \<and> upper (lower c) = c \<and> is_lower (lower c)"
  unfolding is_upper_def
  by (simp only: list.set insert_iff empty_iff)
     (elim disjE; simp add: lowdig_def is_lower_def is_digit_def lower_def upper_def)

lemma lower_lowdig: "is_lower c \<Longrightarrow> lowdig c"
  by (simp add: lowdig_def)



text \<open>key = first component followed by the others, each led by an underscore\<close>

lemma camelize_rest_plain: "list_all lowdig xs \<Longrightarrow> camelize_rest xs = xs"
  by (induction xs rule: camelize_rest.induct) (auto dest: lowdig_not_special)

lemma camelize_rest_step:
  "list_all lowdig xs \<Longrightarrow> y \<noteq> newline \<Longrightarrow>
   camelize_rest (xs @ CHR ''_'' # y # ys) = xs @ upper y # camelize_rest ys"
proof (induction xs)
  case Nil
  then show ?case by simp
next
  case (Cons a xs)
  then have "a \<noteq> CHR ''_''" by (auto dest: lowdig_not_special)
  with Cons show ?case by (cases xs) simp_all
qed

lemma camelize_rest_comps:
  "list_all lowdig xs \<Longrightarrow> list_all good_comp cs \<Longrightarrow>
   camelize_rest (xs @ concat (map ((#) CHR ''_'') cs)) = xs @ concat (map capitalize cs)"
proof (induction cs arbitrary: xs)
  case Nil
  then show ?case by (simp add: camelize_rest_plain)
next
  case (Cons c cs)
  then obtain y ys where c: "c = y # ys" "is_lower y" "list_all lowdig ys"
    by (cases c) auto
  then have "y \<noteq> newline" using lower_lowdig lowdig_not_special by blast
  with Cons c show ?case
    by (simp add: camelize_rest_step)
qed

lemma sub_acronym_nonupper: "\<not> is_upper a \<Longrightarrow> sub_acronym (a # r) = a # sub_acronym r"
  by simp

lemma sub_acronym_single: "\<not> is_upper y \<Longrightarrow> sub_acronym (u # y # r) = u # sub_acronym (y # r)"
  by (simp add: Let_def)

lemma sub_acronym_plain:
  "list_all lowdig xs \<Longrightarrow> sub_acronym (xs @ r) = xs @ sub_acronym r"
  by (induction xs) (simp_all add: lowdig_not_upper del: sub_acronym.simps add: sub_acronym_nonupper)

lemma sub_acronym_comps:
  "list_all good_comp cs \<Longrightarrow> sub_acronym (concat (map capitalize cs)) = concat (map capitalize cs)"
proof (induction cs)
  case Nil
  then show ?case by simp
next
  case (Cons c cs)
  then obtain y z zs where c: "c = y # z # zs" "lowdig z" "list_all lowdig zs"
    by (cases c; cases "tl c") auto
  have "sub_acronym (upper y # z # zs @ concat (map capitalize cs))
        = upper y # z # zs @ sub_acronym (concat (map capitalize cs))"
    using c sub_acronym_plain [of "z # zs"]
    by (simp del: sub_acronym.simps add: sub_acronym_single lowdig_not_upper)
  with Cons c show ?case by (simp del: sub_acronym.simps)
qed

lemma sub_boundary_plain: "list_all lowdig xs \<Longrightarrow> sub_boundary xs = xs"
  by (induction xs rule: sub_boundary.induct) (auto dest: lowdig_not_upper)

lemma sub_boundary_step:
  "list_all lowdig xs \<Longrightarrow> xs \<noteq> [] \<Longrightarrow> is_upper u \<Longrightarrow>
   sub_boundary (xs @ u # r) = xs @ CHR ''_'' # u # sub_boundary r"
proof (induction xs)
  case Nil
  then show ?case by simp
next
  case (Cons a xs)
  show ?case
  proof (cases xs)
    case Nil
    with Cons show ?thesis by (simp add: lowdig_def)
  next
    case (Cons b bs)
    with Cons.prems Cons.IH show ?thesis
      by (simp add: lowdig_not_upper)
  qed
qed

lemma sub_boundary_comps:
  "list_all lowdig xs \<Longrightarrow> xs \<noteq> [] \<Longrightarrow> list_all good_comp cs \<Longrightarrow>
   sub_boundary (xs @ concat (map capitalize cs))
   = xs @ concat (map (\<lambda>c. CHR ''_'' # capitalize c) cs)"
proof (induction cs arbitrary: xs)
  case Nil
  then show ?case by (simp add: sub_boundary_plain)
next
  case (Cons c cs)
  then obtain y ys where c: "c = y # ys" "is_lower y" "ys \<noteq> []" "list_all lowdig ys"
    by (cases c) auto
  then have "is_upper (upper y)" by (simp add: upper_of_lower)
  with Cons c show ?case
    by (simp add: sub_boundary_step)
qed

lemma sub_boundary_head:
  "is_upper u \<Longrightarrow> sub_boundary (u # y # r) = u # sub_boundary (y # r)"
  by (simp add: upper_not_lowdig [unfolded lowdig_def])

lemma camelize_comps:
  assumes "good_comp c" and "list_all good_comp cs"
  shows "camelize (c @ concat (map ((#) CHR ''_'') cs)) = concat (map capitalize (c # cs))"
proof -
  from assms(1) obtain y ys where c: "c = y # ys" "is_lower y" "list_all lowdig ys"
    by (cases c) auto
  then have "y \<noteq> newline" using lower_lowdig lowdig_not_special by blast
  with c assms(2) show ?thesis
    by (simp add: camelize_def camelize_rest_comps)
qed

lemma lower_replace_plain:
  "list_all lowdig xs \<Longrightarrow>
   map lower (map (\<lambda>c. if c = CHR ''-'' then CHR ''_'' else c) xs) = xs"
  by (induction xs) (auto simp: lowdig_lower lowdig_not_special)

lemma underscore_comps:
  assumes "good_comp c" and "list_all good_comp cs"
  shows "underscore (concat (map capitalize (c # cs))) = c @ concat (map ((#) CHR ''_'') cs)"
proof -
  from assms(1) obtain y z zs where c: "c = y # z # zs" "is_lower y" "list_all lowdig (z # zs)"
    by (cases c; cases "tl c") auto
  let ?K = "concat (map capitalize (c # cs))"
  have up: "is_upper (upper y)" and lu: "lower (upper y) = y"
    using c(2) by (simp_all add: upper_of_lower)
  have 1: "sub_acronym ?K = ?K"
    using assms by (intro sub_acronym_comps) simp
  have "sub_boundary ?K = upper y # sub_boundary ((z # zs) @ concat (map capitalize cs))"
    using c up by (simp add: sub_boundary_head del: sub_boundary.simps)
  also have "\<dots> = upper y # (z # zs) @ concat (map (\<lambda>c. CHR ''_'' # capitalize c) cs)"
    using c assms(2) by (subst sub_boundary_comps) simp_all
  finally have 2: "sub_boundary ?K = upper y # (z # zs) @ concat (map (\<lambda>c. CHR ''_'' # capitalize c) cs)" .
  have 3: "map lower (map (\<lambda>c. if c = CHR ''-'' then CHR ''_'' else c)
             (concat (map (\<lambda>c. CHR ''_'' # capitalize c) ds))) = concat (map ((#) CHR ''_'') ds)"
    if "list_all good_comp ds" for ds
    using that
  proof (induction ds)
    case Nil
    then show ?case by simp
  next
    case (Cons d ds)
    then obtain a as where d: "d = a # as" "is_lower a" "list_all lowdig as"
      by (cases d) auto
    have "map lower (map (\<lambda>c. if c = CHR ''-'' then CHR ''_'' else c) as) = as"
      using d(3) by (rule lower_replace_plain)
    moreover have "lower CHR ''_'' = CHR ''_''" by (simp add: lower_def)
    ultimately show ?case using Cons d by (simp add: upper_of_lower)
  qed
  have 4: "map lower (map (\<lambda>c. if c = CHR ''-'' then CHR ''_'' else c) (z # zs)) = z # zs"
    using c(3) by (rule lower_replace_plain)
  show ?thesis
    unfolding underscore_def 1 2 using 3 [OF assms(2)] 4 c up lu
    by (simp add: upper_of_lower)
qed

lemma split_us_nonempty: "split_us k \<noteq> []"
  by (induction k) (auto split: list.splits)

lemma join_split_us: "join_us (split_us k) = k"
  by (induction k) (auto split: list.splits simp: split_us_nonempty)

lemma underscore_camelize_key: "snake_key k \<Longrightarrow> underscore (camelize k) = k"
proof -
  assume a: "snake_key k"
  obtain c cs where s: "split_us k = c # cs"
    using split_us_nonempty by (cases "split_us k") auto
  with a have g: "good_comp c" "list_all good_comp cs" by (simp_all add: snake_key_def)
  have k: "k = c @ concat (map ((#) CHR ''_'') cs)"
    using join_split_us [of k] s by simp
  show ?thesis
    by (subst (1 2) k) (simp only: camelize_comps [OF g] underscore_comps [OF g])
qed

lemma camel_split_concat:
  "k = [] \<or> is_upper (hd k) \<Longrightarrow> concat (map capitalize (camel_split k)) = k"
proof (induction k rule: camel_split.induct)
  case 1
  then show ?case by simp
next
  case (2 c cs)
  let ?r = "dropWhile (\<lambda>d. \<not> is_upper d) cs"
  have "?r = [] \<or> is_upper (hd ?r)"
    using hd_dropWhile [of "\<lambda>d. \<not> is_upper d" cs] by auto
  then have "concat (map capitalize (camel_split ?r)) = ?r" by (rule 2)
  moreover from 2(2) have "upper (lower c) = c" by (simp add: upper_not_lowdig)
  ultimately show ?case by simp
qed

lemma camelize_underscore_key: "camel_key k \<Longrightarrow> camelize (underscore k) = k"
proof -
  assume a: "camel_key k"
  then obtain u r where k: "k = u # r" "is_upper u" "list_all good_comp (camel_split k)"
    by (cases k) (auto simp: camel_key_def)
  then obtain c cs where s: "camel_split k = c # cs" by (cases "camel_split k") auto
  with k(3) have g: "good_comp c" "list_all good_comp cs" by simp_all
  have "concat (map capitalize (camel_split k)) = k"
    by (rule camel_split_concat) (simp add: k(1,2))
  then have e: "k = concat (map capitalize (c # cs))"
    by (simp only: s)
  show ?thesis
    by (subst (1 2) e) (simp only: camelize_comps [OF g] underscore_comps [OF g])
qed

lemma dict_set_fresh: "k \<notin> fst ` set d \<Longrightarrow> dict_set d k v = d @ [(k, v)]"
  by (induction d) auto

lemma foldl_dict_set_distinct:
  "distinct (map fst (d @ kvs)) \<Longrightarrow> foldl (\<lambda>d (k, v). dict_set d k v) d kvs = d @ kvs"
proof (induction kvs arbitrary: d)
  case Nil
  then show ?case by simp
next
  case (Cons kv kvs)
  obtain k v where kv: "kv = (k, v)" by (cases kv)
  from Cons.prems kv have "k \<notin> fst ` set d" by auto
  then have 1: "dict_set d k v = d @ [(k, v)]" by (rule dict_set_fresh)
  from Cons.prems kv have "distinct (map fst ((d @ [(k, v)]) @ kvs))" by simp
  then have "foldl (\<lambda>d (k, v). dict_set d k v) (d @ [(k, v)]) kvs = (d @ [(k, v)]) @ kvs"
    by (rule Cons.IH)
  with 1 kv show ?case by simp
qed

lemma dict_of_items_distinct: "distinct (map fst kvs) \<Longrightarrow> dict_of_items kvs = kvs"
  using foldl_dict_set_distinct [of "[]" kvs] by (simp add: dict_of_items_def)

lemma roundtrip_keys:
  assumes inv: "\<And>k. P k \<Longrightarrow> g (f k) = k"
    and d: "distinct (map fst kvs)" and p: "\<forall>(k, v) \<in> set kvs. P k"
    and vs: "\<And>k v. (k, v) \<in> set kvs \<Longrightarrow> G (F v) = v"
  shows "dict_of_items (map (\<lambda>(k, v). (g k, G v)) (dict_of_items (map (\<lambda>(k, v). (f k, F v)) kvs))) = kvs"
proof -
  have inj: "inj_on f (set (map fst kvs))"
  proof (rule inj_on_inverseI [where g = g])
    fix k assume "k \<in> set (map fst kvs)"
    then obtain v where "(k, v) \<in> set kvs" by auto
    with p have "P k" by auto
    then show "g (f k) = k" by (rule inv)
  qed
  have "map fst (map (\<lambda>(k, v). (f k, F v)) kvs) = map f (map fst kvs)"
    by (induction kvs) auto
  moreover have "distinct (map f (map fst kvs))"
    by (rule iffD2 [OF distinct_map]) (rule conjI [OF d inj])
  ultimately have "distinct (map fst (map (\<lambda>(k, v). (f k, F v)) kvs))"
    by (simp only:)
  then have 1: "dict_of_items (map (\<lambda>(k, v). (f k, F v)) kvs) = map (\<lambda>(k, v). (f k, F v)) kvs"
    by (rule dict_of_items_distinct)
  have 2: "map (\<lambda>(k, v). (g k, G v)) (map (\<lambda>(k, v). (f k, F v)) kvs) = kvs"
    using p vs by (induction kvs) (auto simp: inv)
  show ?thesis
    unfolding 1 2 using d by (rule dict_of_items_distinct)
qed

lemma underscore_camelize_value:
  "keys_ok snake_key m \<Longrightarrow> recursive_underscore (recursive_camelize m) = m"
proof (induction m)
  case (PList xs)
  then show ?case by (simp add: list_all_iff map_idI)
next
  case (PDict kvs)
  have "dict_of_items (map (\<lambda>(k, v). (underscore k, recursive_underscore v))
          (dict_of_items (map (\<lambda>(k, v). (camelize k, recursive_camelize v)) kvs))) = kvs"
  proof (rule roundtrip_keys [where P = snake_key])
    show "\<And>k. snake_key k \<Longrightarrow> underscore (camelize k) = k" by (rule underscore_camelize_key)
    show "distinct (map fst kvs)" using PDict.prems by simp
    show "\<forall>(k, v) \<in> set kvs. snake_key k" using PDict.prems by (auto simp: list_all_iff)
    show "recursive_underscore (recursive_camelize v) = v" if "(k, v) \<in> set kvs" for k v
      using that PDict.prems by (intro PDict.IH [of "(k, v)"]) (auto simp: list_all_iff)
  qed
  then show ?case by simp
qed simp_all

lemma camelize_underscore_value:
  "keys_ok camel_key m \<Longrightarrow> recursive_camelize (recursive_underscore m) = m"
proof (induction m)
  case (PList xs)
  then show ?case by (simp add: list_all_iff map_idI)
next
  case (PDict kvs)
  have "dict_of_items (map (\<lambda>(k, v). (camelize k, recursive_camelize v))
          (dict_of_items (map (\<lambda>(k, v). (underscore k, recursive_underscore v)) kvs))) = kvs"
  proof (rule roundtrip_keys [where P = camel_key])
    show "\<And>k. camel_key k \<Longrightarrow> camelize (underscore k) = k" by (rule camelize_underscore_key)
    show "distinct (map fst kvs)" using PDict.prems by simp
    show "\<forall>(k, v) \<in> set kvs. camel_key k" using PDict.prems by (auto simp: list_all_iff)
    show "recursive_camelize (recursive_underscore v) = v" if "(k, v) \<in> set kvs" for k v
      using that PDict.prems by (intro PDict.IH [of "(k, v)"]) (auto simp: list_all_iff)
  qed
  then show ?case by simp
qed simp_all

text \<open>
  Claim C1, as amended. A key is a snake-case key of the round-trip class when each of
  its underscore-separated components is a lowercase letter followed by at least one
  lowercase letter or digit (\<open>snake_key\<close>), and a camel-case key of the class when it is
  a concatenation of such components with their first letters capitalised
  (\<open>camel_key\<close>). For every value whose mappings have distinct keys of the snake class
  at every depth, \<open>recursive_underscore (recursive_camelize m) = m\<close>; for every value
  whose mappings have distinct keys of the camel class,
  \<open>recursive_camelize (recursive_underscore x) = x\<close>. Equality of the model is equality
  of keys, values and key order, so it implies Python's \<open>==\<close>.
\<close>

theorem key_case_round_trip:
  "(keys_ok snake_key m \<longrightarrow> recursive_underscore (recursive_camelize m) = m) \<and>
   (keys_ok camel_key x \<longrightarrow> recursive_camelize (recursive_underscore x) = x)"
  by (simp add: underscore_camelize_value camelize_underscore_value)

theorem key_case_round_trip_witness:
  "keys_ok snake_key
     (PDict [(''parameter_id'', PInt 7),
             (''children'', PList [PDict [(''value_id'', PStr ''x9'')], PNone])]) \<and>
   recursive_underscore (recursive_camelize
     (PDict [(''parameter_id'', PInt 7),
             (''children'', PList [PDict [(''value_id'', PStr ''x9'')], PNone])]))
   = PDict [(''parameter_id'', PInt 7),
            (''children'', PList [PDict [(''value_id'', PStr ''x9'')], PNone])] \<and>
   keys_ok camel_key
     (PDict [(''ParameterId'', PInt 7), (''Children'', PList [PDict [(''ValueId'', PBool True)]])]) \<and>
   recursive_camelize (recursive_underscore
     (PDict [(''ParameterId'', PInt 7), (''Children'', PList [PDict [(''ValueId'', PBool True)]])]))
   = PDict [(''ParameterId'', PInt 7), (''Children'', PList [PDict [(''ValueId'', PBool True)]])]"
proof -
  have s: "keys_ok snake_key
     (PDict [(''parameter_id'', PInt 7),
             (''children'', PList [PDict [(''value_id'', PStr ''x9'')], PNone])])"
    by (simp add: snake_key_def lowdig_def is_lower_def is_digit_def)
  have c: "keys_ok camel_key
     (PDict [(''ParameterId'', PInt 7), (''Children'', PList [PDict [(''ValueId'', PBool True)]])])"
    by (simp add: camel_key_def lowdig_def is_lower_def is_digit_def is_upper_def lower_def)
  from s c key_case_round_trip
    [of "PDict [(''parameter_id'', PInt 7),
                (''children'', PList [PDict [(''value_id'', PStr ''x9'')], PNone])]"
        "PDict [(''ParameterId'', PInt 7), (''Children'', PList [PDict [(''ValueId'', PBool True)]])]"]
  show ?thesis by blast
qed

text \<open>
  Claim C1, as stated, fails: \<open>a_b\<close> is a snake-case key, its camel form is \<open>AB\<close>, and
  the underscore transform of \<open>AB\<close> finds no word boundary, so the round trip returns
  the key \<open>ab\<close>. A component that starts with a digit loses its underscore in the same
  way: \<open>has_3d_model\<close> comes back as \<open>has3d_model\<close>.
\<close>

theorem key_case_round_trip_counterexample:
  "recursive_underscore (recursive_camelize (PDict [(''a_b'', PInt 1)]))
     = PDict [(''ab'', PInt 1)] \<and>
   recursive_underscore (recursive_camelize (PDict [(''a_b'', PInt 1)]))
     \<noteq> PDict [(''a_b'', PInt 1)] \<and>
   recursive_underscore (recursive_camelize (PDict [(''has_3d_model'', PBool True)]))
     = PDict [(''has3d_model'', PBool True)]"
  by (simp add: dict_of_items_def camelize_def underscore_def
        is_upper_def is_lower_def is_digit_def upper_def lower_def newline_def)

lemmas engine_defs = Model_init_def validate_def errors_def errors_list_def is_valid_def
  rogue_fields_def check_range_def check_text_def messages_def validate_sort_parameter_id_def
  sort_by_parameter_def

text \<open>
  Claim C2. For a \<^verbatim>\<open>Sort\<close> mapping whose \<^verbatim>\<open>sort_option\<close> and \<^verbatim>\<open>direction\<close> are
  allowed values: with \<^verbatim>\<open>sort_option\<close> equal to \<^verbatim>\<open>SortByParameter\<close>, a null (or
  absent) \<^verbatim>\<open>sort_parameter_id\<close> is reported as a cross-field violation under
  \<^verbatim>\<open>sort_parameter_id\<close> and an integer one gives no error; with any other allowed
  \<^verbatim>\<open>sort_option\<close>, an integer \<^verbatim>\<open>sort_parameter_id\<close> is reported as a cross-field
  violation under \<^verbatim>\<open>sort_parameter_id\<close> and a null one gives no error.
\<close>

theorem sort_cross_field_rule:
  assumes "so \<in> set SortOptions" and "dir \<in> set SortDirections"
  shows
  "errors co Sort (PDict [(''sort_option'', PStr so), (''direction'', PStr dir),
                          (''sort_parameter_id'', PNone)])
     = (if so = ''SortByParameter''
        then Inr (Some (Fields [(''sort_parameter_id'', Messages [CrossFieldViolation
               ''If sorting by parameter a sort parameter must be set''])]))
        else Inr None) \<and>
   errors co Sort (PDict [(''sort_option'', PStr so), (''direction'', PStr dir)])
     = errors co Sort (PDict [(''sort_option'', PStr so), (''direction'', PStr dir),
                          (''sort_parameter_id'', PNone)]) \<and>
   errors co Sort (PDict [(''sort_option'', PStr so), (''direction'', PStr dir),
                          (''sort_parameter_id'', PInt i)])
     = (if so = ''SortByParameter'' then Inr None
        else Inr (Some (Fields [(''sort_parameter_id'', Messages [CrossFieldViolation
               ''If not sorting by parameter no sort parameter id should be provided''])])))"
  using assms by (simp add: engine_defs)

theorem sort_cross_field_rule_witness:
  "''SortByParameter'' \<in> set SortOptions \<and> ''SortByDescription'' \<in> set SortOptions \<and>
   ''Ascending'' \<in> set SortDirections \<and>
   errors (\<lambda>t v. None) Sort
     (PDict [(''sort_option'', PStr ''SortByParameter''), (''direction'', PStr ''Ascending''),
             (''sort_parameter_id'', PNone)])
     = Inr (Some (Fields [(''sort_parameter_id'', Messages [CrossFieldViolation
               ''If sorting by parameter a sort parameter must be set''])])) \<and>
   errors (\<lambda>t v. None) Sort
     (PDict [(''sort_option'', PStr ''SortByParameter''), (''direction'', PStr ''Ascending''),
             (''sort_parameter_id'', PInt 7)])
     = Inr None \<and>
   errors (\<lambda>t v. None) Sort
     (PDict [(''sort_option'', PStr ''SortByDescription''), (''direction'', PStr ''Ascending''),
             (''sort_parameter_id'', PInt 7)])
     = Inr (Some (Fields [(''sort_parameter_id'', Messages [CrossFieldViolation
               ''If not sorting by parameter no sort parameter id should be provided''])])) \<and>
   errors (\<lambda>t v. None) Sort
     (PDict [(''sort_option'', PStr ''SortByDescription''), (''direction'', PStr ''Ascending''),
             (''sort_parameter_id'', PNone)])
     = Inr None"
proof -
  have p: "''SortByParameter'' \<in> set SortOptions" and d: "''SortByDescription'' \<in> set SortOptions"
    by (simp_all add: SortOptions_def)
  have a: "''Ascending'' \<in> set SortDirections"
    by (simp add: SortDirections_def)
  from sort_cross_field_rule [OF p a, of "\<lambda>t v. None" 7]
       sort_cross_field_rule [OF d a, of "\<lambda>t v. None" 7] p d a
  show ?thesis by simp
qed

text \<open>
  Claim C8. \<^verbatim>\<open>KeywordSearchRequest\<close> validation rejects \<^verbatim>\<open>record_count\<close> 51 and 0 and
  accepts 50 and 1: a request with a text \<^verbatim>\<open>keywords\<close> and an integer \<^verbatim>\<open>record_count\<close>
  is free of errors exactly when the count is between 1 and 50. When \<^verbatim>\<open>record_count\<close>
  is not supplied, the constructed request holds 10 and validates.
\<close>

theorem record_count_range:
  "errors co KeywordSearchRequest (PDict [(''keywords'', PStr kw), (''record_count'', PInt 51)])
     = Inr (Some (Fields [(''record_count'', Messages [ConstraintViolation])])) \<and>
   errors co KeywordSearchRequest (PDict [(''keywords'', PStr kw), (''record_count'', PInt 0)])
     = Inr (Some (Fields [(''record_count'', Messages [ConstraintViolation])])) \<and>
   errors co KeywordSearchRequest (PDict [(''keywords'', PStr kw), (''record_count'', PInt 50)])
     = Inr None \<and>
   errors co KeywordSearchRequest (PDict [(''keywords'', PStr kw), (''record_count'', PInt 1)])
     = Inr None \<and>
   errors co KeywordSearchRequest (PDict [(''keywords'', PStr kw), (''record_count'', PInt n)])
     = (if 1 \<le> n \<and> n \<le> 50 then Inr None
        else Inr (Some (Fields [(''record_count'', Messages [ConstraintViolation])]))) \<and>
   Model_init co KeywordSearchRequest (PDict [(''keywords'', PStr kw)])
     = Inr (NModel KeywordSearchRequest
          [(''keywords'', NStr kw), (''search_options'', NNone),
           (''record_count'', NInt 10), (''record_start_pos'', NInt 0),
           (''filters'', NNone), (''sort'', NNone), (''requested_quantity'', NInt 1)]) \<and>
   errors co KeywordSearchRequest (PDict [(''keywords'', PStr kw)]) = Inr None"
  by (simp add: engine_defs)

text \<open>
  Claim C9. \<^verbatim>\<open>ParametricFilters\<close> validation requires an integer \<^verbatim>\<open>parameter_id\<close> and a
  text \<^verbatim>\<open>value_id\<close> of length 1 to 100: the mapping with \<^verbatim>\<open>parameter_id\<close> 1 and an
  empty \<^verbatim>\<open>value_id\<close> has a constraint violation under \<^verbatim>\<open>value_id\<close>; an integer
  \<^verbatim>\<open>parameter_id\<close> with a \<^verbatim>\<open>value_id\<close> of length 1 to 100 passes, and of any other
  length does not; a null or absent \<^verbatim>\<open>parameter_id\<close> or \<^verbatim>\<open>value_id\<close> is a missing
  required field, and a list as \<^verbatim>\<open>parameter_id\<close> a conversion failure.
\<close>

theorem parametric_filter_validation:
  "errors co ParametricFilters (PDict [(''parameter_id'', PInt 1), (''value_id'', PStr [])])
     = Inr (Some (Fields [(''value_id'', Messages [ConstraintViolation])])) \<and>
   errors co ParametricFilters (PDict [(''parameter_id'', PInt i), (''value_id'', PStr s)])
     = (if 1 \<le> length s \<and> length s \<le> 100 then Inr None
        else Inr (Some (Fields [(''value_id'', Messages [ConstraintViolation])]))) \<and>
   errors co ParametricFilters (PDict [(''parameter_id'', PNone), (''value_id'', PStr s)])
     = (if 1 \<le> length s \<and> length s \<le> 100
        then Inr (Some (Fields [(''parameter_id'', Messages [MissingRequiredField])]))
        else Inr (Some (Fields [(''parameter_id'', Messages [MissingRequiredField]),
                                (''value_id'', Messages [ConstraintViolation])]))) \<and>
   errors co ParametricFilters (PDict [(''value_id'', PStr s)])
     = errors co ParametricFilters (PDict [(''parameter_id'', PNone), (''value_id'', PStr s)]) \<and>
   errors co ParametricFilters (PDict [(''parameter_id'', PList xs), (''value_id'', PStr s)])
     = Inr (Some (Fields [(''parameter_id'', Messages [ConversionFailure])])) \<and>
   errors co ParametricFilters (PDict [(''parameter_id'', PInt i), (''value_id'', PNone)])
     = Inr (Some (Fields [(''value_id'', Messages [MissingRequiredField])])) \<and>
   errors co ParametricFilters (PDict [(''parameter_id'', PInt i)])
     = Inr (Some (Fields [(''value_id'', Messages [MissingRequiredField])]))"
  by (simp add: engine_defs Suc_le_eq)

text \<open>
  What \<^verbatim>\<open>errors_list\<close> returns whenever every element constructs: \<^verbatim>\<open>None\<close> for the
  empty list, and otherwise one bound method per element, valid or not.
\<close>

lemma sequence_all_right:
  "\<forall>x \<in> set xs. \<exists>i. f x = Inr i \<Longrightarrow>
   sequence (map (\<lambda>x. case f x of Inl e \<Rightarrow> Inl e | Inr i \<Rightarrow> Inr c) xs)
     = Inr (replicate (length xs) c)"
  by (induction xs) auto

lemma errors_list_constructed:
  assumes "\<forall>d \<in> set ds. \<exists>inst. Model_init co cls d = Inr inst"
  shows "errors_list co cls ds =
           Inr (if ds = [] then NoneObj
                else ListObj (replicate (length ds) (BoundMethod ''errors'' cls)))"
proof -
  have "sequence (map (\<lambda>d. case Model_init co cls d of
                             Inl e \<Rightarrow> Inl e | Inr inst \<Rightarrow> Inr (BoundMethod ''errors'' cls)) ds)
        = Inr (replicate (length ds) (BoundMethod ''errors'' cls))"
    using assms by (rule sequence_all_right)
  then show ?thesis
    by (cases ds) (simp_all add: errors_list_def)
qed

text \<open>
  Claim C3, evaluated on the code. \<^verbatim>\<open>errors_list\<close> on a list of one valid element
  returns a list of one element, the bound method \<^verbatim>\<open>errors\<close>, where \<^verbatim>\<open>None\<close> is
  documented; on a valid and an invalid element it returns two elements where one
  element is invalid.
\<close>

theorem errors_list_on_valid_elements:
  "errors co ParametricFilters (PDict [(''parameter_id'', PInt 1), (''value_id'', PStr ''a'')])
     = Inr None \<and>
   errors_list co ParametricFilters
     [PDict [(''parameter_id'', PInt 1), (''value_id'', PStr ''a'')]]
     = Inr (ListObj [BoundMethod ''errors'' ParametricFilters]) \<and>
   errors co ParametricFilters (PDict [(''parameter_id'', PInt 1), (''value_id'', PStr [])])
     = Inr (Some (Fields [(''value_id'', Messages [ConstraintViolation])])) \<and>
   errors_list co ParametricFilters
     [PDict [(''parameter_id'', PInt 1), (''value_id'', PStr ''a'')],
      PDict [(''parameter_id'', PInt 1), (''value_id'', PStr [])]]
     = Inr (ListObj [BoundMethod ''errors'' ParametricFilters,
                     BoundMethod ''errors'' ParametricFilters])"
  by (simp add: engine_defs)

text \<open>
  Claim C4, evaluated on the code. For an element whose \<^verbatim>\<open>value_id\<close> is empty,
  \<^verbatim>\<open>errors\<close> returns the report with the constraint violation, and \<^verbatim>\<open>errors_list\<close>
  returns a list holding the bound method \<^verbatim>\<open>errors\<close>: the violation is not in what it
  returns. The same holds for a missing required field and for a cross-field violation.
\<close>

theorem errors_list_omits_violations:
  "errors co ParametricFilters (PDict [(''parameter_id'', PInt 1), (''value_id'', PStr [])])
     = Inr (Some (Fields [(''value_id'', Messages [ConstraintViolation])])) \<and>
   errors_list co ParametricFilters
     [PDict [(''parameter_id'', PInt 1), (''value_id'', PStr [])]]
     = Inr (ListObj [BoundMethod ''errors'' ParametricFilters]) \<and>
   errors co ParametricFilters (PDict [(''value_id'', PStr ''a'')])
     = Inr (Some (Fields [(''parameter_id'', Messages [MissingRequiredField])])) \<and>
   errors_list co ParametricFilters [PDict [(''value_id'', PStr ''a'')]]
     = Inr (ListObj [BoundMethod ''errors'' ParametricFilters]) \<and>
   errors co Sort (PDict [(''sort_option'', PStr ''SortByParameter''),
                          (''direction'', PStr ''Ascending'')])
     = Inr (Some (Fields [(''sort_parameter_id'', Messages [CrossFieldViolation
               ''If sorting by parameter a sort parameter must be set''])])) \<and>
   errors_list co Sort [PDict [(''sort_option'', PStr ''SortByParameter''),
                               (''direction'', PStr ''Ascending'')]]
     = Inr (ListObj [BoundMethod ''errors'' Sort]) \<and>
   errors_list co ParametricFilters [PDict [(''parameter_id'', PList []), (''value_id'', PStr ''a'')]]
     = Inr (ReportObj (Fields [(''parameter_id'', Messages [ConversionFailure])]))"
  by (simp add: engine_defs SortOptions_def SortDirections_def)

declare depth.simps [simp del]

lemma underscore_taxonomy_keys:
  "underscore ''ProductCount'' = ''product_count''"
  "underscore ''NewProductCount'' = ''new_product_count''"
  "underscore ''ParameterId'' = ''parameter_id''"
  "underscore ''ValueId'' = ''value_id''"
  "underscore ''Parameter'' = ''parameter''"
  "underscore ''Value'' = ''value''"
  "underscore ''Children'' = ''children''"
  by (simp_all add: underscore_def is_upper_def is_lower_def is_digit_def lower_def)

lemma recursive_underscore_scalar [simp]:
  "recursive_underscore (raw_int a) = raw_int a"
  "recursive_underscore (raw_str b) = raw_str b"
  by (cases a; simp) (cases b; simp)

lemma convert_scalar [simp]:
  "convert co (IntType lo hi) (raw_int a) = Inr (native_int a)"
  "convert co (StringType mn mx ch) (raw_str b) = Inr (native_str b)"
  by (cases a; simp) (cases b; simp)

lemma collect_all_right:
  "length ks = length xs \<Longrightarrow> \<forall>x \<in> set xs. f x = Inr (g x) \<Longrightarrow>
   lefts (zip ks (map f xs)) = [] \<and> map snd (rights (zip ks (map f xs))) = map g xs"
proof (induction xs arbitrary: ks)
  case Nil
  then show ?case by simp
next
  case (Cons x xs)
  then obtain k ks' where "ks = k # ks'" by (cases ks) auto
  with Cons show ?case by simp
qed

lemma recursive_underscore_raw_taxon:
  "recursive_underscore (raw_taxon (Taxon (Attrs pc npc pid vid p v) cs)) =
     PDict [(''product_count'', raw_int pc), (''new_product_count'', raw_int npc),
            (''parameter_id'', raw_int pid), (''value_id'', raw_str vid),
            (''parameter'', raw_str p), (''value'', raw_str v),
            (''children'', PList (map (\<lambda>c. recursive_underscore (raw_taxon c)) cs))]"
  by (simp add: underscore_taxonomy_keys dict_of_items_def comp_def)

lemma convert_taxonomy:
  "convert co (ModelType LimitedTaxonomy) (recursive_underscore (raw_taxon t)) = Inr (taxonomy_of t)"
proof (induction t)
  case (Taxon a cs)
  obtain pc npc pid vid p v where a: "a = Attrs pc npc pid vid p v" by (cases a)
  let ?xs = "map (\<lambda>c. recursive_underscore (raw_taxon c)) cs"
  have "\<forall>c \<in> set cs. convert co (ModelType LimitedTaxonomy) (recursive_underscore (raw_taxon c))
          = Inr (taxonomy_of c)"
    using Taxon.IH by simp
  then have "lefts (zip [0 ..< length cs]
               (map (\<lambda>c. convert co (ModelType LimitedTaxonomy) (recursive_underscore (raw_taxon c))) cs)) = [] \<and>
             map snd (rights (zip [0 ..< length cs]
               (map (\<lambda>c. convert co (ModelType LimitedTaxonomy) (recursive_underscore (raw_taxon c))) cs)))
             = map taxonomy_of cs"
    by (intro collect_all_right) simp_all
  then have ch: "convert co (ListType (ModelType LimitedTaxonomy)) (PList ?xs)
              = Inr (NList (map taxonomy_of cs))"
    by (simp add: comp_def Let_def del: convert.simps(4))
  show ?case
    unfolding a recursive_underscore_raw_taxon
    by (simp add: ch rogue_fields_def del: convert.simps(2))
qed

lemma Model_init_taxonomy:
  "Model_init co LimitedTaxonomy (recursive_underscore (raw_taxon t)) = Inr (taxonomy_of t)"
proof -
  obtain a cs where t: "t = Taxon a cs" by (cases t)
  obtain pc npc pid vid p v where a: "a = Attrs pc npc pid vid p v" by (cases a)
  have "Model_init co LimitedTaxonomy (recursive_underscore (raw_taxon t))
        = (case convert co (ModelType LimitedTaxonomy) (recursive_underscore (raw_taxon t)) of
             Inl r \<Rightarrow> Inl (DataError r) | Inr inst \<Rightarrow> Inr inst)"
    unfolding t a recursive_underscore_raw_taxon by (simp add: Model_init_def)
  then show ?thesis by (simp add: convert_taxonomy)
qed

lemma depth_taxonomy:
  "depth (taxonomy_of (Taxon a cs)) = Suc (fold max (map (\<lambda>c. depth (taxonomy_of c)) cs) 0)"
  by (cases a) (subst depth.simps, simp add: comp_def)

text \<open>
  Claim C5. For every raw search response whose \<^verbatim>\<open>LimitedTaxonomy\<close> branch is a node
  with two children, each with one child of its own, and whose \<^verbatim>\<open>FilterOptions\<close> branch
  is a list of filter options that construct, \<^verbatim>\<open>KeywordSearchResult(response)\<close> returns
  an object whose taxonomy is built at construction: a tree of depth 3 of
  \<^verbatim>\<open>LimitedTaxonomy\<close> instances (children included) whose six field values at every
  node are the raw values, under the snake-case field names.
\<close>

theorem taxonomy_tree_built:
  assumes "map_of resp ''LimitedTaxonomy'' =
             Some (raw_taxon (Taxon a [Taxon b [Taxon g []], Taxon c [Taxon h []]]))"
    and "map_of resp ''FilterOptions'' = Some (PList fos)"
    and "sequence (map (\<lambda>fo. Model_init co FilterOption (recursive_underscore fo)) fos) = Inr options"
  shows "KeywordSearchResult_init co (PDict resp) =
           Inr (KeywordSearchResult (PDict resp)
                  (taxonomy_of (Taxon a [Taxon b [Taxon g []], Taxon c [Taxon h []]])) options) \<and>
         depth (taxonomy_of (Taxon a [Taxon b [Taxon g []], Taxon c [Taxon h []]])) = 3"
proof
  show "KeywordSearchResult_init co (PDict resp) =
           Inr (KeywordSearchResult (PDict resp)
                  (taxonomy_of (Taxon a [Taxon b [Taxon g []], Taxon c [Taxon h []]])) options)"
    using assms by (simp add: KeywordSearchResult_init_def Model_init_taxonomy del: raw_taxon.simps taxonomy_of.simps)
  show "depth (taxonomy_of (Taxon a [Taxon b [Taxon g []], Taxon c [Taxon h []]])) = 3"
    by (simp add: depth_taxonomy del: taxonomy_of.simps)
qed

theorem taxonomy_tree_built_witness:
  "KeywordSearchResult_init (\<lambda>t v. None)
     (PDict [(''ProductsCount'', PInt 2),
             (''LimitedTaxonomy'', raw_taxon
                (Taxon (Attrs (Some 9) (Some 1) (Some (-8)) (Some ''0'') (Some ''Categories'') (Some ''Out of Bounds'')) 
                   [Taxon (Attrs (Some 5) None (Some (-8)) (Some ''1'') (Some ''Categories'') (Some ''Capacitors''))
                      [Taxon (Attrs (Some 5) None (Some (-8)) (Some ''2'') None (Some ''Ceramic'')) []],
                    Taxon (Attrs (Some 4) (Some 1) (Some (-8)) (Some ''3'') (Some ''Categories'') (Some ''Resistors''))
                      [Taxon (Attrs (Some 4) (Some 1) (Some (-8)) (Some ''4'') None None) []]])),
             (''FilterOptions'', PList [])])
   = Inr (KeywordSearchResult
     (PDict [(''ProductsCount'', PInt 2),
             (''LimitedTaxonomy'', raw_taxon
                (Taxon (Attrs (Some 9) (Some 1) (Some (-8)) (Some ''0'') (Some ''Categories'') (Some ''Out of Bounds'')) 
                   [Taxon (Attrs (Some 5) None (Some (-8)) (Some ''1'') (Some ''Categories'') (Some ''Capacitors''))
                      [Taxon (Attrs (Some 5) None (Some (-8)) (Some ''2'') None (Some ''Ceramic'')) []],
                    Taxon (Attrs (Some 4) (Some 1) (Some (-8)) (Some ''3'') (Some ''Categories'') (Some ''Resistors''))
                      [Taxon (Attrs (Some 4) (Some 1) (Some (-8)) (Some ''4'') None None) []]])),
             (''FilterOptions'', PList [])])
     (taxonomy_of
                (Taxon (Attrs (Some 9) (Some 1) (Some (-8)) (Some ''0'') (Some ''Categories'') (Some ''Out of Bounds'')) 
                   [Taxon (Attrs (Some 5) None (Some (-8)) (Some ''1'') (Some ''Categories'') (Some ''Capacitors''))
                      [Taxon (Attrs (Some 5) None (Some (-8)) (Some ''2'') None (Some ''Ceramic'')) []],
                    Taxon (Attrs (Some 4) (Some 1) (Some (-8)) (Some ''3'') (Some ''Categories'') (Some ''Resistors''))
                      [Taxon (Attrs (Some 4) (Some 1) (Some (-8)) (Some ''4'') None None) []]]))
     []) \<and>
   depth (taxonomy_of
                (Taxon (Attrs (Some 9) (Some 1) (Some (-8)) (Some ''0'') (Some ''Categories'') (Some ''Out of Bounds'')) 
                   [Taxon (Attrs (Some 5) None (Some (-8)) (Some ''1'') (Some ''Categories'') (Some ''Capacitors''))
                      [Taxon (Attrs (Some 5) None (Some (-8)) (Some ''2'') None (Some ''Ceramic'')) []],
                    Taxon (Attrs (Some 4) (Some 1) (Some (-8)) (Some ''3'') (Some ''Categories'') (Some ''Resistors''))
                      [Taxon (Attrs (Some 4) (Some 1) (Some (-8)) (Some ''4'') None None) []]])) = 3"
  by (rule taxonomy_tree_built [where fos = "[]"]) simp_all

text \<open>
  Claim C6. Every accessor of \<open>Part\<close> reads one named key of the raw mapping and
  returns its declared default when the key is absent: \<open>Part({}).moq\<close> is \<open>None\<close>,
  \<open>Part({'MinimumOrderQuantity': 5}).moq\<close> is 5, and \<open>digikey_url\<close> is the fixed base
  URL followed by the raw \<open>PartUrl\<close>, so \<open>Part({}).digikey_url\<close> is the base URL alone.
  Each accessor is given as a function of the one key it looks up.
\<close>

theorem part_accessors:
  "Part_moq (Part (PDict [])) = Inr PNone \<and>
   Part_moq (Part (PDict [(''MinimumOrderQuantity'', PInt 5)])) = Inr (PInt 5) \<and>
   Part_digikey_url (Part (PDict [])) = Inr (PStr ''https://www.digikey.com'') \<and>
   Part_moq (Part (PDict kvs)) =
     Inr (case map_of kvs ''MinimumOrderQuantity'' of None \<Rightarrow> PNone | Some v \<Rightarrow> v) \<and>
   Part_mpn (Part (PDict kvs)) =
     Inr (case map_of kvs ''ManufacturerPartNumber'' of None \<Rightarrow> PNone | Some v \<Rightarrow> v) \<and>
   Part_part_status (Part (PDict kvs)) =
     Inr (case map_of kvs ''PartStatus'' of None \<Rightarrow> PNone | Some v \<Rightarrow> v) \<and>
   Part_digikey_pn (Part (PDict kvs)) =
     Inr (case map_of kvs ''DigiKeyPartNumber'' of None \<Rightarrow> PNone | Some v \<Rightarrow> v) \<and>
   Part_in_stock (Part (PDict kvs)) =
     Inr (case map_of kvs ''QuantityAvailable'' of None \<Rightarrow> PNone | Some v \<Rightarrow> v) \<and>
   Part_description_product (Part (PDict kvs)) =
     Inr (case map_of kvs ''ProductDescription'' of None \<Rightarrow> PNone | Some v \<Rightarrow> v) \<and>
   Part_description_detailed (Part (PDict kvs)) =
     Inr (case map_of kvs ''DetailedDescription'' of None \<Rightarrow> PNone | Some v \<Rightarrow> v) \<and>
   Part_datasheet (Part (PDict kvs)) =
     Inr (case map_of kvs ''PrimaryDatasheet'' of None \<Rightarrow> PNone | Some v \<Rightarrow> v) \<and>
   Part_digikey_url (Part (PDict kvs)) =
     (case map_of kvs ''PartUrl'' of
        None \<Rightarrow> Inr (PStr ''https://www.digikey.com'')
      | Some (PStr path) \<Rightarrow> Inr (PStr (''https://www.digikey.com'' @ path))
      | Some v \<Rightarrow> Inl TypeError) \<and>
   Part_category (Part (PDict kvs)) =
     Inr (IdTextPair (case map_of kvs ''Category'' of None \<Rightarrow> PDict [] | Some v \<Rightarrow> v)) \<and>
   Part_family (Part (PDict kvs)) =
     Inr (IdTextPair (case map_of kvs ''Family'' of None \<Rightarrow> PDict [] | Some v \<Rightarrow> v)) \<and>
   Part_manufacturer (Part (PDict kvs)) =
     PidVid_value (PidVid (case map_of kvs ''Manufacturer'' of None \<Rightarrow> PDict [] | Some v \<Rightarrow> v)) \<and>
   Part_manufacturer (Part (PDict [])) = Inr (PStr []) \<and>
   Part_standard_pricing (Part (PDict kvs)) =
     (case py_iter (case map_of kvs ''StandardPricing'' of None \<Rightarrow> PList [] | Some v \<Rightarrow> v) of
        Inl e \<Rightarrow> Inl e | Inr items \<Rightarrow> Inr (map PriceBreak items)) \<and>
   Part_standard_pricing (Part (PDict [])) = Inr [] \<and>
   Part_parameters (Part (PDict kvs)) =
     (case py_iter (case map_of kvs ''Parameters'' of None \<Rightarrow> PList [] | Some v \<Rightarrow> v) of
        Inl e \<Rightarrow> Inl e | Inr items \<Rightarrow> params_dict [] (map PidVid items)) \<and>
   Part_parameters (Part (PDict [])) = Inr []"
  by (simp split: option.split pyval.split)

text \<open>
  Claim C7. The \<^verbatim>\<open>products\<close> property is a function of the raw result alone (the
  object has no field that stores it): it takes the \<^verbatim>\<open>Products\<close> branch, an empty list
  when the key is absent, and returns one \<^verbatim>\<open>Part\<close> per raw item, in order. Every access
  therefore returns the same list of wrappers, of the length of the raw list.
\<close>

theorem products_view:
  "KeywordSearchResult_products (KeywordSearchResult (PDict kvs) taxonomy options) =
     (case map_of kvs ''Products'' of
        None \<Rightarrow> Inr []
      | Some (PList items) \<Rightarrow> Inr (map Part items)
      | Some (PDict d) \<Rightarrow> Inr (map (\<lambda>kv. Part (PStr (fst kv))) d)
      | Some (PStr s) \<Rightarrow> Inr (map (\<lambda>c. Part (PStr [c])) s)
      | Some v \<Rightarrow> Inl TypeError) \<and>
   (map_of kvs ''Products'' = Some (PList items) \<longrightarrow>
      (\<exists>ps. KeywordSearchResult_products (KeywordSearchResult (PDict kvs) taxonomy options) = Inr ps
          \<and> ps = map Part items \<and> length ps = length items))"
  by (simp add: KeywordSearchResult_products_def comp_def split: option.split pyval.split)

theorem products_view_witness:
  "KeywordSearchResult_products
     (KeywordSearchResult
        (PDict [(''Products'', PList [PDict [], PDict [(''MinimumOrderQuantity'', PInt 5)]])])
        NNone [])
   = Inr [Part (PDict []), Part (PDict [(''MinimumOrderQuantity'', PInt 5)])]"
  using products_view
    [of "[(''Products'', PList [PDict [], PDict [(''MinimumOrderQuantity'', PInt 5)]])]"
        NNone "[]" "[PDict [], PDict [(''MinimumOrderQuantity'', PInt 5)]]"]
  by simp

text \<open>
  The constructions of a list all succeed exactly when the list of their results is the
  list of the constructed values.
\<close>

lemma sequence_map_Inr: "sequence (map Inr ys) = Inr ys"
  by (induction ys) simp_all

lemma sequence_InrD: "sequence xs = Inr ys \<Longrightarrow> xs = map Inr ys"
proof (induction xs arbitrary: ys)
  case Nil
  then show ?case by simp
next
  case (Cons x xs)
  then obtain v where x: "x = Inr v" by (cases x) simp_all
  with Cons.prems obtain vs where vs: "sequence xs = Inr vs" and ys: "ys = v # vs"
    by (auto split: sum.splits)
  from Cons.IH [OF vs] x ys show ?case by simp
qed

lemma sequence_Inr_iff: "sequence xs = Inr ys \<longleftrightarrow> xs = map Inr ys"
  using sequence_InrD sequence_map_Inr by metis

lemma init_constructed:
  assumes "KeywordSearchResult_init co result = Inr r"
  shows "\<exists>kvs lt fos items. result = PDict kvs \<and> raw_result r = result \<and>
           map_of kvs ''LimitedTaxonomy'' = Some lt \<and>
           Model_init co LimitedTaxonomy (recursive_underscore lt) = Inr (limited_taxonomy r) \<and>
           map_of kvs ''FilterOptions'' = Some fos \<and> py_iter fos = Inr items \<and>
           map (\<lambda>fo. Model_init co FilterOption (recursive_underscore fo)) items
             = map Inr (filter_options r)"
proof (cases result)
  case (PDict kvs)
  with assms show ?thesis
    by (auto simp: KeywordSearchResult_init_def sequence_Inr_iff
             split: option.splits sum.splits)
qed (use assms in \<open>simp_all add: KeywordSearchResult_init_def\<close>)

lemma init_reads_two_keys:
  assumes "map_of kvs' ''LimitedTaxonomy'' = map_of kvs ''LimitedTaxonomy''"
    and "map_of kvs' ''FilterOptions'' = map_of kvs ''FilterOptions''"
  shows "KeywordSearchResult_init co (PDict kvs') =
           (case KeywordSearchResult_init co (PDict kvs) of
              Inl e \<Rightarrow> Inl e
            | Inr r \<Rightarrow> Inr (KeywordSearchResult (PDict kvs') (limited_taxonomy r) (filter_options r)))"
  using assms
  by (simp add: KeywordSearchResult_init_def split: option.split sum.split)

text \<open>
  Claim C10, as amended. Constructing a \<^verbatim>\<open>KeywordSearchResult\<close> from a mapping without
  the key \<^verbatim>\<open>LimitedTaxonomy\<close> raises \<^verbatim>\<open>KeyError\<close>. From a mapping with that key and
  without the key \<^verbatim>\<open>FilterOptions\<close> it raises too: the taxonomy is built first, so the
  exception is the one of that construction when it fails, and \<^verbatim>\<open>KeyError\<close> for
  \<^verbatim>\<open>FilterOptions\<close> when it succeeds. Every result that was constructed comes from a
  mapping with both keys; its \<^verbatim>\<open>limited_taxonomy\<close> is the instance built from the
  underscored \<^verbatim>\<open>LimitedTaxonomy\<close> branch, and its \<^verbatim>\<open>filter_options\<close> are the instances
  built from the underscored items of the \<^verbatim>\<open>FilterOptions\<close> branch, one per item in
  order. The constructor reads these two keys only: two mappings that agree on them
  construct alike. Of the other keys the class reads, \<^verbatim>\<open>Products\<close> may be absent without
  a fault anywhere (\<^verbatim>\<open>products\<close> is then empty), while without \<^verbatim>\<open>ProductsCount\<close> the
  method \<^verbatim>\<open>__repr__\<close> raises \<^verbatim>\<open>KeyError\<close>.
\<close>

theorem init_lookup_faults:
  "(map_of kvs ''LimitedTaxonomy'' = None \<longrightarrow>
      KeywordSearchResult_init co (PDict kvs) = Inl (KeyError ''LimitedTaxonomy'')) \<and>
   (map_of kvs ''LimitedTaxonomy'' = Some lt \<longrightarrow> map_of kvs ''FilterOptions'' = None \<longrightarrow>
      KeywordSearchResult_init co (PDict kvs) =
        (case Model_init co LimitedTaxonomy (recursive_underscore lt) of
           Inl e \<Rightarrow> Inl e
         | Inr taxonomy \<Rightarrow> Inl (KeyError ''FilterOptions''))) \<and>
   (KeywordSearchResult_init co result = Inr r \<longrightarrow>
      (\<exists>kvs0 lt0 fos items. result = PDict kvs0 \<and> raw_result r = result \<and>
         map_of kvs0 ''LimitedTaxonomy'' = Some lt0 \<and>
         Model_init co LimitedTaxonomy (recursive_underscore lt0) = Inr (limited_taxonomy r) \<and>
         map_of kvs0 ''FilterOptions'' = Some fos \<and> py_iter fos = Inr items \<and>
         map (\<lambda>fo. Model_init co FilterOption (recursive_underscore fo)) items
           = map Inr (filter_options r))) \<and>
   (map_of kvs' ''LimitedTaxonomy'' = map_of kvs ''LimitedTaxonomy'' \<longrightarrow>
    map_of kvs' ''FilterOptions'' = map_of kvs ''FilterOptions'' \<longrightarrow>
      KeywordSearchResult_init co (PDict kvs') =
        (case KeywordSearchResult_init co (PDict kvs) of
           Inl e \<Rightarrow> Inl e
         | Inr r' \<Rightarrow> Inr (KeywordSearchResult (PDict kvs')
                          (limited_taxonomy r') (filter_options r')))) \<and>
   (KeywordSearchResult_init co (PDict kvs) = Inr r \<longrightarrow>
      (map_of kvs ''Products'' = None \<longrightarrow> KeywordSearchResult_products r = Inr []) \<and>
      (map_of kvs ''ProductsCount'' = None \<longrightarrow>
         KeywordSearchResult_repr str r = Inl (KeyError ''ProductsCount'')))"
proof (intro conjI impI)
  assume "map_of kvs ''LimitedTaxonomy'' = None"
  then show "KeywordSearchResult_init co (PDict kvs) = Inl (KeyError ''LimitedTaxonomy'')"
    by (simp add: KeywordSearchResult_init_def)
next
  assume "map_of kvs ''LimitedTaxonomy'' = Some lt" "map_of kvs ''FilterOptions'' = None"
  then show "KeywordSearchResult_init co (PDict kvs) =
        (case Model_init co LimitedTaxonomy (recursive_underscore lt) of
           Inl e \<Rightarrow> Inl e
         | Inr taxonomy \<Rightarrow> Inl (KeyError ''FilterOptions''))"
    by (simp add: KeywordSearchResult_init_def split: sum.split)
next
  assume "KeywordSearchResult_init co result = Inr r"
  then show "\<exists>kvs0 lt0 fos items. result = PDict kvs0 \<and> raw_result r = result \<and>
         map_of kvs0 ''LimitedTaxonomy'' = Some lt0 \<and>
         Model_init co LimitedTaxonomy (recursive_underscore lt0) = Inr (limited_taxonomy r) \<and>
         map_of kvs0 ''FilterOptions'' = Some fos \<and> py_iter fos = Inr items \<and>
         map (\<lambda>fo. Model_init co FilterOption (recursive_underscore fo)) items
           = map Inr (filter_options r)"
    by (rule init_constructed)
next
  assume "map_of kvs' ''LimitedTaxonomy'' = map_of kvs ''LimitedTaxonomy''"
    "map_of kvs' ''FilterOptions'' = map_of kvs ''FilterOptions''"
  then show "KeywordSearchResult_init co (PDict kvs') =
        (case KeywordSearchResult_init co (PDict kvs) of
           Inl e \<Rightarrow> Inl e
         | Inr r' \<Rightarrow> Inr (KeywordSearchResult (PDict kvs')
                          (limited_taxonomy r') (filter_options r')))"
    by (rule init_reads_two_keys)
next
  assume a: "KeywordSearchResult_init co (PDict kvs) = Inr r" and "map_of kvs ''Products'' = None"
  with init_constructed [OF a] show "KeywordSearchResult_products r = Inr []"
    by (auto simp: KeywordSearchResult_products_def)
next
  assume a: "KeywordSearchResult_init co (PDict kvs) = Inr r"
    and "map_of kvs ''ProductsCount'' = None"
  with init_constructed [OF a]
  show "KeywordSearchResult_repr str r = Inl (KeyError ''ProductsCount'')"
    by (auto simp: KeywordSearchResult_repr_def)
qed

theorem init_lookup_faults_witness:
  "KeywordSearchResult_init (\<lambda>t v. None) (PDict [(''FilterOptions'', PList [])])
     = Inl (KeyError ''LimitedTaxonomy'') \<and>
   KeywordSearchResult_init (\<lambda>t v. None) (PDict [(''LimitedTaxonomy'', PNone)])
     = Inl (KeyError ''FilterOptions'') \<and>
   KeywordSearchResult_init (\<lambda>t v. None)
     (PDict [(''LimitedTaxonomy'', PDict [(''Value'', PStr ''Resistors'')]),
             (''FilterOptions'', PList [PDict [(''ParameterId'', PInt 7)]]),
             (''Products'', PList []), (''ProductsCount'', PInt 0)])
     = Inr (KeywordSearchResult
         (PDict [(''LimitedTaxonomy'', PDict [(''Value'', PStr ''Resistors'')]),
                 (''FilterOptions'', PList [PDict [(''ParameterId'', PInt 7)]]),
                 (''Products'', PList []), (''ProductsCount'', PInt 0)])
         (NModel LimitedTaxonomy
            [(''product_count'', NNone), (''new_product_count'', NNone),
             (''parameter_id'', NNone), (''value_id'', NNone), (''parameter'', NNone),
             (''value'', NStr ''Resistors''), (''children'', NNone)])
         [NModel FilterOption
            [(''values'', NNone), (''parameter_id'', NInt 7), (''parameter'', NNone)]]) \<and>
   (\<exists>r. KeywordSearchResult_init (\<lambda>t v. None)
          (PDict [(''LimitedTaxonomy'', PDict [(''Value'', PStr ''Resistors'')]),
                  (''FilterOptions'', PList [PDict [(''ParameterId'', PInt 7)]])]) = Inr r \<and>
        limited_taxonomy r = NModel LimitedTaxonomy
            [(''product_count'', NNone), (''new_product_count'', NNone),
             (''parameter_id'', NNone), (''value_id'', NNone), (''parameter'', NNone),
             (''value'', NStr ''Resistors''), (''children'', NNone)] \<and>
        filter_options r = [NModel FilterOption
            [(''values'', NNone), (''parameter_id'', NInt 7), (''parameter'', NNone)]] \<and>
        KeywordSearchResult_products r = Inr [] \<and>
        KeywordSearchResult_repr (\<lambda>v. ''?'') r = Inl (KeyError ''ProductsCount''))"
proof -
  let ?co = "\<lambda>(t::ftype) (v::pyval). None :: native option"
  let ?lt = "PDict [(''Value'', PStr ''Resistors'')]"
  let ?fos = "PList [PDict [(''ParameterId'', PInt 7)]]"
  let ?full = "[(''LimitedTaxonomy'', ?lt), (''FilterOptions'', ?fos),
                (''Products'', PList []), (''ProductsCount'', PInt 0)]"
  let ?bare = "[(''LimitedTaxonomy'', ?lt), (''FilterOptions'', ?fos)]"
  let ?tax = "NModel LimitedTaxonomy
            [(''product_count'', NNone), (''new_product_count'', NNone),
             (''parameter_id'', NNone), (''value_id'', NNone), (''parameter'', NNone),
             (''value'', NStr ''Resistors''), (''children'', NNone)]"
  let ?opts = "[NModel FilterOption
            [(''values'', NNone), (''parameter_id'', NInt 7), (''parameter'', NNone)]]"
  have u: "underscore ''Value'' = ''value''" "underscore ''ParameterId'' = ''parameter_id''"
    by (simp_all add: underscore_def is_upper_def is_lower_def is_digit_def lower_def)
  have full: "KeywordSearchResult_init ?co (PDict ?full)
                = Inr (KeywordSearchResult (PDict ?full) ?tax ?opts)"
    by (simp add: KeywordSearchResult_init_def Model_init_def rogue_fields_def
          dict_of_items_def u)
  have a: "KeywordSearchResult_init ?co (PDict [(''FilterOptions'', PList [])])
             = Inl (KeyError ''LimitedTaxonomy'')"
    using init_lookup_faults [of "[(''FilterOptions'', PList [])]" ?co] by simp
  have "Model_init ?co LimitedTaxonomy (recursive_underscore PNone)
          = Inr (NModel LimitedTaxonomy
            [(''product_count'', NNone), (''new_product_count'', NNone),
             (''parameter_id'', NNone), (''value_id'', NNone), (''parameter'', NNone),
             (''value'', NNone), (''children'', NNone)])"
    by (simp add: Model_init_def rogue_fields_def)
  with init_lookup_faults [of "[(''LimitedTaxonomy'', PNone)]" ?co PNone]
  have b: "KeywordSearchResult_init ?co (PDict [(''LimitedTaxonomy'', PNone)])
             = Inl (KeyError ''FilterOptions'')" by simp
  from init_lookup_faults [of ?full ?co _ _ _ ?bare] full
  have bare: "KeywordSearchResult_init ?co (PDict ?bare)
                = Inr (KeywordSearchResult (PDict ?bare) ?tax ?opts)" by simp
  from init_lookup_faults [of ?bare ?co _ _ "KeywordSearchResult (PDict ?bare) ?tax ?opts"
      _ "\<lambda>v. ''?''"] bare
  have c: "KeywordSearchResult_products (KeywordSearchResult (PDict ?bare) ?tax ?opts) = Inr []"
    and d: "KeywordSearchResult_repr (\<lambda>v. ''?'') (KeywordSearchResult (PDict ?bare) ?tax ?opts)
              = Inl (KeyError ''ProductsCount'')" by simp_all
  from a b full bare c d show ?thesis by simp
qed

text \<open>
  Claim C10, as stated, fails: a mapping without \<^verbatim>\<open>FilterOptions\<close> whose
  \<^verbatim>\<open>LimitedTaxonomy\<close> branch does not construct raises the \<^verbatim>\<open>DataError\<close> of the
  taxonomy, which is built before \<^verbatim>\<open>FilterOptions\<close> is indexed, and not a lookup fault.
  Here the branch has a list where the text \<^verbatim>\<open>Value\<close> is declared.
\<close>

theorem init_lookup_faults_counterexample:
  "map_of [(''LimitedTaxonomy'', PDict [(''Value'', PList [])])] ''FilterOptions'' = None \<and>
   KeywordSearchResult_init (\<lambda>t v. None)
     (PDict [(''LimitedTaxonomy'', PDict [(''Value'', PList [])])])
     = Inl (DataError (Fields [(''value'', Messages [ConversionFailure])])) \<and>
   KeywordSearchResult_init (\<lambda>t v. None)
     (PDict [(''LimitedTaxonomy'', PDict [(''Value'', PList [])])])
     \<noteq> Inl (KeyError ''FilterOptions'') \<and>
   KeywordSearchResult_init (\<lambda>t v. None)
     (PDict [(''LimitedTaxonomy'', PDict [(''Bogus'', PInt 1)])])
     = Inl (DataError (Fields [(''bogus'', Messages [RogueField])]))"
  by (simp add: KeywordSearchResult_init_def Model_init_def rogue_fields_def dict_of_items_def
        underscore_def is_upper_def is_lower_def is_digit_def lower_def)

end
